theory Spec2Isabelle
  imports Complex_Main
begin

section \<open>JavaScript strings\<close>

text \<open>
  A JavaScript string is a sequence of UTF-16 code units. A code unit is modelled by
  its number, so that every string the program can hold (user input, service
  responses) is a value of the model; the source's ASCII literals are written with
  \<open>str\<close>.
\<close>

type_synonym jsstr = "nat list"

definition str :: "string \<Rightarrow> jsstr" where
  "str s = map of_char s"

text \<open>
  \<open>String.prototype.trim\<close> removes leading and trailing WhiteSpace and
  LineTerminator code units (ECMAScript: TAB, LF, VT, FF, CR, SP, NBSP, the other
  space separators of Unicode, LS, PS and the byte order mark).
\<close>

definition isLineTerminator :: "nat \<Rightarrow> bool" where
  "isLineTerminator c \<longleftrightarrow> c = 10 \<or> c = 13 \<or> c = 8232 \<or> c = 8233"

definition isWhiteSpace :: "nat \<Rightarrow> bool" where
  "isWhiteSpace c \<longleftrightarrow>
     c = 9 \<or> c = 11 \<or> c = 12 \<or> c = 32 \<or> c = 160 \<or> c = 5760 \<or>
     (8192 \<le> c \<and> c \<le> 8202) \<or> c = 8239 \<or> c = 8287 \<or> c = 12288 \<or> c = 65279 \<or>
     isLineTerminator c"

definition trim :: "jsstr \<Rightarrow> jsstr" where
  "trim s = rev (dropWhile isWhiteSpace (rev (dropWhile isWhiteSpace s)))"

text \<open>Truthiness of a string, as in \<open>if (s)\<close> and \<open>filter(Boolean)\<close>: not empty.\<close>

definition truthy :: "jsstr \<Rightarrow> bool" where
  "truthy s \<longleftrightarrow> s \<noteq> []"

text \<open>\<open>Array.prototype.join\<close> on an array of strings.\<close>

fun join :: "jsstr \<Rightarrow> jsstr list \<Rightarrow> jsstr" where
  "join sep [] = []"
| "join sep [x] = x"
| "join sep (x # y # ys) = x @ sep @ join sep (y # ys)"

text \<open>\<open>xs[i]\<close>: \<open>undefined\<close> (here \<open>None\<close>) out of range.\<close>

fun js_index :: "'a list \<Rightarrow> nat \<Rightarrow> 'a option" where
  "js_index [] i = None"
| "js_index (x # xs) 0 = Some x"
| "js_index (x # xs) (Suc i) = js_index xs i"

text \<open>Decimal rendering of a natural number, as a template literal renders \<open>index + 1\<close>.\<close>

function numberToString :: "nat \<Rightarrow> jsstr" where
  "numberToString n =
     (if n < 10 then [48 + n] else numberToString (n div 10) @ [48 + n mod 10])"
  by pat_completeness auto
termination
  by (relation "measure id") auto

declare numberToString.simps [simp del]

text \<open>
  \<open>s.split(sep)\<close> for a separator of one code unit: the pieces between the
  occurrences of the separator, never an empty array.
\<close>

fun split_on :: "nat \<Rightarrow> jsstr \<Rightarrow> jsstr list" where
  "split_on sep [] = [[]]"
| "split_on sep (c # cs) =
     (if c = sep then [] # split_on sep cs
      else (case split_on sep cs of
              [] \<Rightarrow> [[c]]
            | piece # pieces \<Rightarrow> (c # piece) # pieces))"

text \<open>The rest of \<open>s\<close> after the prefix \<open>p\<close>, when \<open>s\<close> starts with \<open>p\<close>.\<close>

fun stripPrefix :: "jsstr \<Rightarrow> jsstr \<Rightarrow> jsstr option" where
  "stripPrefix [] s = Some s"
| "stripPrefix (p # ps) [] = None"
| "stripPrefix (p # ps) (c # cs) = (if p = c then stripPrefix ps cs else None)"

section \<open>The generative service and its client\<close>

text \<open>
  Errors are values. \<open>Error m\<close> is \<open>new Error(m)\<close>; \<open>TypeError\<close> is what a
  property read on \<open>null\<close> or \<open>undefined\<close>, or a call of a missing method,
  throws; \<open>SyntaxError\<close> is what \<open>JSON.parse\<close> throws; \<open>Rejection r\<close> is
  the reason with which the service (or the file reader) rejects, which the program
  never inspects.
\<close>

datatype js_error = Error jsstr | TypeError | SyntaxError | Rejection jsstr

text \<open>
  A content part of the SDK: \<open>{text}\<close> or \<open>{inlineData: {mimeType, data}}\<close>. The
  data of the reference image is \<open>split(',')[1]\<close> of a data URL, which is
  \<open>undefined\<close> (\<open>None\<close>) when the URL has no comma.
\<close>

datatype part = Text jsstr | InlineData jsstr "jsstr option"

text \<open>
  The two system instructions of the storyboard recipe are long constant texts of the
  source (\<open>classicSystemInstruction\<close>, \<open>jsonSystemInstruction\<close>); only which of the
  two is sent matters here, so they are named, not spelled out.
\<close>

datatype system_instruction = classicSystemInstruction | jsonSystemInstruction

text \<open>
  A request to the service:
  \<open>GenerateContent model parts systemInstruction\<close> is
  \<open>ai.models.generateContent({model, contents: {parts}, config: {systemInstruction}})\<close>,
  \<open>GenerateImages model prompt numberOfImages outputMimeType aspectRatio\<close> is
  \<open>ai.models.generateImages({model, prompt, config: {...}})\<close>.
\<close>

datatype net_call =
    GenerateContent jsstr "part list" "system_instruction option"
  | GenerateImages jsstr jsstr nat jsstr jsstr

datatype image_t = Image (imageBytes: "jsstr option")

datatype generated_image = GeneratedImage (image: "image_t option")

datatype generate_images_response =
  GenerateImagesResponse (generatedImages: "generated_image list option")

text \<open>
  The service is external. Its answer to a request may depend on the request and on
  everything it was asked before (the first argument, the requests issued so far, in
  the order of issue); \<open>Inl\<close> is a rejected promise. The text answer is
  \<open>response.text\<close>, a string as the source declares it.
\<close>

record service =
  generateContent :: "net_call list \<Rightarrow> net_call \<Rightarrow> js_error + jsstr"
  generateImages :: "net_call list \<Rightarrow> net_call \<Rightarrow> js_error + generate_images_response"

text \<open>\<open>response.generatedImages?.[0]?.image?.imageBytes\<close>\<close>

definition firstImageBytes :: "generate_images_response \<Rightarrow> jsstr option" where
  "firstImageBytes response =
     (case generatedImages response of
        None \<Rightarrow> None
      | Some imgs \<Rightarrow>
          (case js_index imgs 0 of
             None \<Rightarrow> None
           | Some g \<Rightarrow> (case image g of None \<Rightarrow> None | Some im \<Rightarrow> imageBytes im)))"

text \<open>
  Every function with an effect takes the requests issued so far and returns them
  extended by its own. \<open>generateImage\<close> ignores its third parameter
  \<open>imageFile\<close> in the source, which is left out.
\<close>

definition generateImage ::
  "service \<Rightarrow> jsstr \<Rightarrow> jsstr \<Rightarrow> net_call list \<Rightarrow> (js_error + jsstr) \<times> net_call list" where
  "generateImage ai prompt aspectRatio calls =
     (let request =
            GenerateImages (str ''imagen-3.0-generate-002'') prompt 1 (str ''image/jpeg'') aspectRatio
      in ((case generateImages ai calls request of
             Inl e \<Rightarrow> Inl e
           | Inr response \<Rightarrow>
               (case firstImageBytes response of
                  None \<Rightarrow> Inl (Error (str ''No images generated from prompt.''))
                | Some img \<Rightarrow>
                    if truthy img then Inr img
                    else Inl (Error (str ''No images generated from prompt.'')))),
          calls @ [request]))"

text \<open>
  A \<open>File\<close>: its MIME type and what \<open>FileReader.readAsDataURL\<close> yields for it
  (\<open>Inl\<close> when the reader fires \<open>onerror\<close>).
\<close>

record js_file =
  file_type :: jsstr
  readAsDataURL :: "js_error + jsstr"

definition analysisInstruction :: jsstr where
  "analysisInstruction = str
     (''You are a master art director creating a prompt for an AI image generator. '' @
      ''Based on the provided image, describe its visual style using a concise, '' @
      ''comma-separated list of keywords. Focus on mood, color palette, lighting, '' @
      ''and key artistic characteristics.'')"

definition analyzeImageStyle ::
  "service \<Rightarrow> js_file \<Rightarrow> net_call list \<Rightarrow> (js_error + jsstr) \<times> net_call list" where
  "analyzeImageStyle ai imageFile calls =
     (case readAsDataURL imageFile of
        Inl e \<Rightarrow> (Inl e, calls)
      | Inr dataURL \<Rightarrow>
          (let imagePart = InlineData (file_type imageFile) (js_index (split_on 44 dataURL) 1);
               request =
                 GenerateContent (str ''gemini-2.5-flash'') [Text analysisInstruction, imagePart] None
           in (generateContent ai calls request, calls @ [request])))"

section \<open>JSON values and the built-ins the program calls\<close>

text \<open>
  The numbers \<open>JSON.parse\<close> can return are the finite doubles and the two
  infinities (\<open>1e999\<close>). The program looks at a number only through its
  truthiness and through \<open>> 0\<close>, which do not tell \<open>-0\<close> from \<open>0\<close>, so a finite
  number is modelled by its exact value.
\<close>

datatype jsnum = Finite rat | PosInfinity | NegInfinity

datatype json =
    JNull
  | JBool bool
  | JNumber jsnum
  | JString jsstr
  | JArray "json list"
  | JObject "(jsstr \<times> json) list"

text \<open>
  \<open>JSON.parse\<close> and \<open>JSON.stringify\<close> are built-ins of the language, not code of
  the repository: they are parameters of the model. \<open>JSON_parse s = None\<close> is the
  \<open>SyntaxError\<close> thrown on a text that is not JSON; \<open>JSON_stringify v\<close> is
  \<open>JSON.stringify(v, null, 2)\<close>. \<open>toNumber_gt0 v\<close> tells whether \<open>v > 0\<close> holds
  for a string, an array or an object \<open>v\<close>, which JavaScript decides by converting
  \<open>v\<close> to a number.
\<close>

record builtins =
  JSON_parse :: "jsstr \<Rightarrow> json option"
  JSON_stringify :: "json \<Rightarrow> jsstr"
  toNumber_gt0 :: "json \<Rightarrow> bool"

section \<open>The storyboard orchestrator: \<open>handleGenerateStoryboard\<close> of \<open>App\<close>\<close>

datatype prompt_format = classic | json

text \<open>The state of \<open>App\<close> that its handlers write.\<close>

record app_state =
  isSaving :: bool
  savingTitle :: jsstr
  generationError :: "jsstr list option"
  generatedResult :: "(jsstr \<times> jsstr) option"

subsection \<open>Step 1: the style guide\<close>

definition noStyleSentence :: jsstr where
  "noStyleSentence = str
     (''No specific cinematic style has been selected; rely on the reference image '' @
      ''(if provided) and scene descriptions for style cues.'')"

definition initialStyleGuide :: "jsstr \<Rightarrow> jsstr" where
  "initialStyleGuide selectedStyle =
     (if selectedStyle \<noteq> str ''No Style''
      then str ''Cinematic Style: '' @ selectedStyle @ str ''.''
      else noStyleSentence)"

text \<open>
  Returns \<open>(styleGuide, imageStyleKeywords)\<close>. A failure of the analysis is caught
  and logged; both variables keep their values.
\<close>

definition resolveStyle ::
  "service \<Rightarrow> js_file option \<Rightarrow> jsstr \<Rightarrow> net_call list \<Rightarrow> (jsstr \<times> jsstr) \<times> net_call list" where
  "resolveStyle ai imageFile selectedStyle calls =
     (let styleGuide = initialStyleGuide selectedStyle;
          imageStyleKeywords = []
      in (case imageFile of
            None \<Rightarrow> ((styleGuide, imageStyleKeywords), calls)
          | Some file \<Rightarrow>
              (case analyzeImageStyle ai file calls of
                 (Inr imageStyle, calls') \<Rightarrow>
                   ((styleGuide @ [10] @ str ''Reference Image Style: '' @ imageStyle, imageStyle),
                    calls')
               | (Inl e, calls') \<Rightarrow> ((styleGuide, imageStyleKeywords), calls'))))"

subsection \<open>Step 2: one image per scene, settled jointly\<close>

definition styleForPrompt :: "jsstr \<Rightarrow> jsstr \<Rightarrow> jsstr" where
  "styleForPrompt selectedStyle imageStyleKeywords =
     join (str '', '')
       (filter truthy
          [if selectedStyle \<noteq> str ''No Style'' then selectedStyle else [],
           imageStyleKeywords])"

definition fullPrompt :: "jsstr \<Rightarrow> jsstr \<Rightarrow> jsstr \<Rightarrow> jsstr" where
  "fullPrompt selectedStyle imageStyleKeywords scene =
     (let style = styleForPrompt selectedStyle imageStyleKeywords
      in (if truthy style then style @ str '', '' else []) @
         str ''cinematic shot depicting '' @ trim scene)"

text \<open>
  \<open>scenes.map(...)\<close>: the callback runs for the scenes in array order, and
  \<open>generateImage\<close> issues its request before it first awaits, so the requests are
  issued in array order. The result holds, per index, how the promise of that index
  settles: \<open>Inr (Some image)\<close>, \<open>Inr None\<close> for \<open>Promise.resolve(null)\<close>, or
  \<open>Inl reason\<close>. \<open>Promise.allSettled\<close> keeps the order of the promises, whatever
  the order in which they settle.
\<close>

fun imagePromises ::
  "service \<Rightarrow> jsstr \<Rightarrow> jsstr \<Rightarrow> jsstr list \<Rightarrow> net_call list \<Rightarrow>
     (js_error + jsstr option) list \<times> net_call list" where
  "imagePromises ai selectedStyle imageStyleKeywords [] calls = ([], calls)"
| "imagePromises ai selectedStyle imageStyleKeywords (scene # scenes) calls =
     (let (settled, calls') =
            (if truthy (trim scene)
             then (case generateImage ai (fullPrompt selectedStyle imageStyleKeywords scene)
                          (str ''4:3'') calls of
                     (Inl e, calls') \<Rightarrow> (Inl e, calls')
                   | (Inr img, calls') \<Rightarrow> (Inr (Some img), calls'))
             else (Inr None, calls));
          (rest, calls'') = imagePromises ai selectedStyle imageStyleKeywords scenes calls'
      in (settled # rest, calls''))"

text \<open>The callback of \<open>imageResults.map\<close>: a rejected promise gives \<open>null\<close>.\<close>

definition settledValue :: "js_error + jsstr option \<Rightarrow> jsstr option" where
  "settledValue result = (case result of Inr v \<Rightarrow> v | Inl reason \<Rightarrow> None)"

subsection \<open>Step 3: the parts of the master request\<close>

definition framingInstruction :: jsstr where
  "framingInstruction = str
     (''Based on the following storyboard scenes (text and images), and adhering to the '' @
      ''specified cinematic and technical guidance, create a series of detailed, '' @
      ''individual shot prompts for a video generation model.'')"

text \<open>The body of the \<open>scenes.forEach\<close> callback: what it pushes onto \<open>promptParts\<close>.\<close>

definition pushScene :: "jsstr option list \<Rightarrow> part list \<Rightarrow> nat \<times> jsstr \<Rightarrow> part list" where
  "pushScene sceneImages promptParts indexed =
     (case indexed of
        (index, scene) \<Rightarrow>
          if truthy (trim scene) then
            (let promptParts' =
                   promptParts @
                   [Text (str ''Scene '' @ numberToString (index + 1) @ str '': '' @ trim scene)]
             in (case js_index sceneImages index of
                   Some (Some imageBase64) \<Rightarrow>
                     if truthy imageBase64
                     then promptParts' @ [InlineData (str ''image/jpeg'') (Some imageBase64)]
                     else promptParts'
                 | _ \<Rightarrow> promptParts'))
          else promptParts)"

definition buildPromptParts :: "jsstr \<Rightarrow> jsstr list \<Rightarrow> jsstr option list \<Rightarrow> part list" where
  "buildPromptParts styleGuide scenes sceneImages =
     foldl (pushScene sceneImages)
       [Text framingInstruction, Text (str ''--- STYLE GUIDANCE ---'' @ [10] @ styleGuide)]
       (enumerate 0 scenes)"

subsection \<open>Step 4: the master request, and the clean-up of a JSON answer\<close>

definition masterRequest :: "prompt_format \<Rightarrow> part list \<Rightarrow> net_call" where
  "masterRequest promptFormat promptParts =
     GenerateContent (str ''gemini-2.5-flash'') promptParts
       (Some (if promptFormat = json then jsonSystemInstruction else classicSystemInstruction))"

text \<open>
  \<open>replace(/```json\n?/, '')\<close>: the leftmost occurrence of three backticks (code unit
  96) and \<open>json\<close> is removed, with the line feed after it when there is one.
\<close>

definition jsonFence :: jsstr where
  "jsonFence = [96, 96, 96] @ str ''json''"

fun removeJsonFence :: "jsstr \<Rightarrow> jsstr" where
  "removeJsonFence [] = []"
| "removeJsonFence (c # cs) =
     (case stripPrefix jsonFence (c # cs) of
        Some rest \<Rightarrow> (case stripPrefix [10] rest of Some rest' \<Rightarrow> rest' | None \<Rightarrow> rest)
      | None \<Rightarrow> c # removeJsonFence cs)"

text \<open>
  \<open>replace(/```$/, '')\<close>: without the \<open>m\<close> flag \<open>$\<close> is the end of the text, so
  three backticks are removed when they are its last three code units.
\<close>

definition removeClosingFence :: "jsstr \<Rightarrow> jsstr" where
  "removeClosingFence s =
     (if 3 \<le> length s \<and> drop (length s - 3) s = [96, 96, 96]
      then take (length s - 3) s else s)"

definition cleanFences :: "jsstr \<Rightarrow> jsstr" where
  "cleanFences promptText = trim (removeClosingFence (removeJsonFence promptText))"

text \<open>
  Lines 416 to 437: the text that becomes \<open>prompts\<close>. The \<open>catch\<close> around
  \<open>JSON.parse\<close> only logs, so no error leaves this step.
\<close>

definition postProcess :: "builtins \<Rightarrow> prompt_format \<Rightarrow> jsstr \<Rightarrow> jsstr" where
  "postProcess js promptFormat text =
     (if promptFormat = json then
        (let promptText = cleanFences text
         in (case JSON_parse js promptText of
               Some parsedJson \<Rightarrow> JSON_stringify js parsedJson
             | None \<Rightarrow> promptText))
      else text)"

subsection \<open>The handler\<close>

definition noScenesMessage :: jsstr where
  "noScenesMessage = str ''Please add at least one scene to the storyboard.''"

definition storyboardFailedMessages :: "jsstr list" where
  "storyboardFailedMessages =
     [str ''Failed to generate storyboard.'',
      str ''Please check your connection or API key and try again.'']"

text \<open>
  The result is what the promise of the handler settles to (\<open>Inl\<close>: the error it
  throws; \<open>Inr (prompts, sceneImages)\<close>), the state of \<open>App\<close> afterwards, and the
  requests issued. Inside the outer \<open>try\<close> only the master request can throw: the
  failure of the style analysis is caught in \<open>resolveStyle\<close>, the image promises are
  settled by \<open>Promise.allSettled\<close>, and the clean-up catches its own error.
\<close>

definition handleGenerateStoryboard ::
  "service \<Rightarrow> builtins \<Rightarrow> app_state \<Rightarrow> jsstr list \<Rightarrow> js_file option \<Rightarrow> jsstr \<Rightarrow> prompt_format \<Rightarrow>
     (js_error + jsstr \<times> jsstr option list) \<times> app_state \<times> net_call list" where
  "handleGenerateStoryboard ai js st scenes imageFile selectedStyle promptFormat =
     (let st0 = st\<lparr>generationError := None\<rparr>;
          nonEmptyScenes = filter (\<lambda>s. truthy (trim s)) scenes
      in if length nonEmptyScenes = 0 then
           (Inl (Error noScenesMessage), st0\<lparr>generationError := Some [noScenesMessage]\<rparr>, [])
         else
           (let ((styleGuide, imageStyleKeywords), calls1) =
                  resolveStyle ai imageFile selectedStyle [];
                (imageResults, calls2) =
                  imagePromises ai selectedStyle imageStyleKeywords scenes calls1;
                sceneImages = map settledValue imageResults;
                promptParts = buildPromptParts styleGuide scenes sceneImages;
                request = masterRequest promptFormat promptParts
            in (case generateContent ai calls2 request of
                  Inr text \<Rightarrow>
                    (Inr (postProcess js promptFormat text, sceneImages), st0, calls2 @ [request])
                | Inl e \<Rightarrow>
                    (Inl (Error (str ''Could not generate storyboard.'')),
                     st0\<lparr>generationError := Some storyboardFailedMessages\<rparr>,
                     calls2 @ [request]))))"

subsection \<open>The caller: \<open>handleGenerateStoryboard\<close> of \<open>StoryboardGenerator\<close>\<close>

text \<open>
  The state the caller writes: \<open>masterPrompt\<close> and \<open>visualStoryboard\<close> of
  \<open>AnimateImagePage\<close> (through \<open>onPromptGenerated\<close> and \<open>onVisualsGenerated\<close>;
  the fields \<open>page_...\<close>), and \<open>visualStoryboard\<close> and \<open>isGenerating\<close> of
  \<open>StoryboardGenerator\<close> itself (the fields \<open>generator_...\<close>). The analytics
  event is left out.
\<close>

record page_state =
  page_masterPrompt :: jsstr
  page_visualStoryboard :: "jsstr option list"
  generator_visualStoryboard :: "jsstr option list"
  generator_isGenerating :: bool

definition StoryboardGenerator_handleGenerateStoryboard ::
  "service \<Rightarrow> builtins \<Rightarrow> app_state \<Rightarrow> page_state \<Rightarrow> jsstr list \<Rightarrow> js_file option \<Rightarrow> jsstr \<Rightarrow>
     prompt_format \<Rightarrow> page_state \<times> app_state \<times> net_call list" where
  "StoryboardGenerator_handleGenerateStoryboard ai js st page scenes imageFile selectedStyle promptFormat =
     (let page0 = page\<lparr>generator_isGenerating := True, page_masterPrompt := [],
                        page_visualStoryboard := [], generator_visualStoryboard := []\<rparr>
      in (case handleGenerateStoryboard ai js st scenes imageFile selectedStyle promptFormat of
            (Inr (prompts, sceneImages), st', calls) \<Rightarrow>
              (page0\<lparr>page_masterPrompt := prompts, page_visualStoryboard := sceneImages,
                      generator_visualStoryboard := sceneImages,
                      generator_isGenerating := False\<rparr>,
               st', calls)
          | (Inl error, st', calls) \<Rightarrow>
              (page0\<lparr>generator_isGenerating := False\<rparr>, st', calls)))"

section \<open>The single-scene preview: \<open>handleGenerateScene\<close> and \<open>handleAnimate\<close>\<close>

subsection \<open>Reading properties of a parsed value\<close>

text \<open>
  A value of JavaScript is a \<open>json\<close> or \<open>undefined\<close> (\<open>None\<close>). Reading a
  property of \<open>null\<close> throws. \<open>getMember name v\<close> is \<open>v.name\<close> for the names
  \<open>generation_prompt\<close> and \<open>scenes\<close>, which only an object can have;
  \<open>getLength v\<close> is \<open>v.length\<close>; \<open>getFirst v\<close> is \<open>v[0]\<close>.
\<close>

fun getMember :: "jsstr \<Rightarrow> json \<Rightarrow> js_error + json option" where
  "getMember name JNull = Inl TypeError"
| "getMember name (JObject members) = Inr (map_of members name)"
| "getMember name v = Inr None"

fun getLength :: "json \<Rightarrow> js_error + json option" where
  "getLength JNull = Inl TypeError"
| "getLength (JArray xs) = Inr (Some (JNumber (Finite (of_nat (length xs)))))"
| "getLength (JString s) = Inr (Some (JNumber (Finite (of_nat (length s)))))"
| "getLength (JObject members) = Inr (map_of members (str ''length''))"
| "getLength v = Inr None"

fun getFirst :: "json \<Rightarrow> js_error + json option" where
  "getFirst JNull = Inl TypeError"
| "getFirst (JArray xs) = Inr (js_index xs 0)"
| "getFirst (JString s) = Inr (case s of [] \<Rightarrow> None | c # cs \<Rightarrow> Some (JString [c]))"
| "getFirst (JObject members) = Inr (map_of members (str ''0''))"
| "getFirst v = Inr None"

text \<open>\<open>x > 0\<close>: \<open>undefined\<close> converts to \<open>NaN\<close>, \<open>null\<close> to 0, \<open>true\<close> to 1.\<close>

fun gtZero :: "builtins \<Rightarrow> json option \<Rightarrow> bool" where
  "gtZero js None = False"
| "gtZero js (Some JNull) = False"
| "gtZero js (Some (JBool b)) = b"
| "gtZero js (Some (JNumber (Finite r))) = (0 < r)"
| "gtZero js (Some (JNumber PosInfinity)) = True"
| "gtZero js (Some (JNumber NegInfinity)) = False"
| "gtZero js (Some v) = toNumber_gt0 js v"

text \<open>The truthiness of a value, as in \<open>if (firstScenePrompt)\<close>.\<close>

fun jsTruthy :: "json option \<Rightarrow> bool" where
  "jsTruthy None = False"
| "jsTruthy (Some JNull) = False"
| "jsTruthy (Some (JBool b)) = b"
| "jsTruthy (Some (JNumber (Finite r))) = (r \<noteq> 0)"
| "jsTruthy (Some (JNumber n)) = True"
| "jsTruthy (Some (JString s)) = truthy s"
| "jsTruthy (Some v) = True"

subsection \<open>Splitting at the scene markers\<close>

definition isDigit :: "nat \<Rightarrow> bool" where
  "isDigit c \<longleftrightarrow> 48 \<le> c \<and> c \<le> 57"

text \<open>
  Where the last \<open>---\<close> of a line ends: what the greedy \<open>.*\<close> followed by \<open>---\<close>
  matches.
\<close>

fun lastDashesEnd :: "jsstr \<Rightarrow> nat option" where
  "lastDashesEnd [] = None"
| "lastDashesEnd (c # cs) =
     (case lastDashesEnd cs of
        Some e \<Rightarrow> Some (Suc e)
      | None \<Rightarrow> (case stripPrefix (str ''---'') (c # cs) of Some rest \<Rightarrow> Some 3 | None \<Rightarrow> None))"

text \<open>
  The match of \<open>/--- (?:SCENE|PROMPT) \d+.*---/\<close> at the start of \<open>s\<close>: its length,
  or \<open>None\<close>. After the first digit the rest of \<open>\d+.*\<close> is any run of code
  units other than line terminators, as long as possible, so the match ends with the
  last \<open>---\<close> of the line.
\<close>

definition markerMatch :: "jsstr \<Rightarrow> nat option" where
  "markerMatch s =
     (case stripPrefix (str ''--- '') s of
        None \<Rightarrow> None
      | Some s1 \<Rightarrow>
          (case (case stripPrefix (str ''SCENE'') s1 of
                   Some r \<Rightarrow> Some (5, r)
                 | None \<Rightarrow> (case stripPrefix (str ''PROMPT'') s1 of
                              Some r \<Rightarrow> Some (6, r)
                            | None \<Rightarrow> None)) of
             None \<Rightarrow> None
           | Some (n, s2) \<Rightarrow>
               (case stripPrefix (str '' '') s2 of
                  None \<Rightarrow> None
                | Some s3 \<Rightarrow>
                    (case s3 of
                       [] \<Rightarrow> None
                     | d # s4 \<Rightarrow>
                         if isDigit d then
                           (case lastDashesEnd (takeWhile (\<lambda>c. \<not> isLineTerminator c) s4) of
                              None \<Rightarrow> None
                            | Some e \<Rightarrow> Some (4 + n + 1 + 1 + e))
                         else None))))"

text \<open>
  \<open>masterPrompt.split(/--- (?:SCENE|PROMPT) \d+.*---/)\<close>: the text is scanned from
  the left; at a match the piece read so far is closed and the scan goes on after the
  match. A match holds at least its first code unit \<open>c\<close>, so what follows a match of
  length \<open>n\<close> at \<open>c # cs\<close> is \<open>drop (n - 1) cs\<close>.
\<close>

fun splitFrom :: "jsstr \<Rightarrow> jsstr \<Rightarrow> jsstr list" where
  "splitFrom piece [] = [piece]"
| "splitFrom piece (c # cs) =
     (case markerMatch (c # cs) of
        Some n \<Rightarrow> piece # splitFrom [] (drop (n - 1) cs)
      | None \<Rightarrow> splitFrom (piece @ [c]) cs)"

definition splitMarkers :: "jsstr \<Rightarrow> jsstr list" where
  "splitMarkers s = splitFrom [] s"

subsection \<open>Choosing the prompt of the preview\<close>

text \<open>
  The body of the \<open>try\<close> after \<open>JSON.parse\<close> has returned \<open>parsed\<close>: the value
  of \<open>firstScenePrompt\<close> before \<open>if (firstScenePrompt)\<close>, or the error thrown on
  the way. \<open>parsed?.scenes?.length\<close> is \<open>undefined\<close> when \<open>parsed\<close> or
  \<open>parsed.scenes\<close> is \<open>null\<close> or \<open>undefined\<close>.
\<close>

definition scenesLength :: "json \<Rightarrow> json option" where
  "scenesLength parsed =
     (case parsed of
        JNull \<Rightarrow> None
      | _ \<Rightarrow>
          (case getMember (str ''scenes'') parsed of
             Inr (Some JNull) \<Rightarrow> None
           | Inr (Some scenes) \<Rightarrow> (case getLength scenes of Inr len \<Rightarrow> len | Inl e \<Rightarrow> None)
           | _ \<Rightarrow> None))"

definition generationPromptOfFirst :: "json \<Rightarrow> js_error + json option" where
  "generationPromptOfFirst xs =
     (case getFirst xs of
        Inl e \<Rightarrow> Inl e
      | Inr None \<Rightarrow> Inl TypeError
      | Inr (Some x) \<Rightarrow> getMember (str ''generation_prompt'') x)"

definition firstScenePromptOf :: "builtins \<Rightarrow> json \<Rightarrow> js_error + json option" where
  "firstScenePromptOf js parsed =
     (if (case parsed of JArray xs \<Rightarrow> 0 < length xs | _ \<Rightarrow> False)
      then generationPromptOfFirst parsed
      else if gtZero js (scenesLength parsed)
      then (case getMember (str ''scenes'') parsed of
              Inl e \<Rightarrow> Inl e
            | Inr None \<Rightarrow> Inl TypeError
            | Inr (Some scenes) \<Rightarrow> generationPromptOfFirst scenes)
      else Inr (Some (JString [])))"

text \<open>
  Lines 536 to 558: the value of \<open>finalPrompt\<close> after the \<open>try\<close> and its
  \<open>catch\<close>. The \<open>catch\<close> takes every error of the \<open>try\<close>, the
  \<open>SyntaxError\<close> of \<open>JSON.parse\<close> and a \<open>TypeError\<close> of a property read
  alike. The value need not be a string: \<open>generation_prompt\<close> may hold any JSON
  value.
\<close>

definition extractFirstPrompt :: "builtins \<Rightarrow> jsstr \<Rightarrow> json" where
  "extractFirstPrompt js masterPrompt =
     (case (case JSON_parse js masterPrompt of
              None \<Rightarrow> Inl SyntaxError
            | Some parsed \<Rightarrow> firstScenePromptOf js parsed) of
        Inr firstScenePrompt \<Rightarrow>
          (case firstScenePrompt of
             Some v \<Rightarrow> if jsTruthy (Some v) then v else JString masterPrompt
           | None \<Rightarrow> JString masterPrompt)
      | Inl e \<Rightarrow>
          (let prompts = splitMarkers masterPrompt
           in if 1 < length prompts then JString (trim (prompts ! 1)) else JString masterPrompt))"

text \<open>
  Line 561, \<open>finalPrompt.trim() === '' ? masterPrompt : finalPrompt\<close>: a value that
  is not a string has no \<open>trim\<close>, and the call throws.
\<close>

definition chooseFinalPrompt :: "builtins \<Rightarrow> jsstr \<Rightarrow> js_error + jsstr" where
  "chooseFinalPrompt js masterPrompt =
     (case extractFirstPrompt js masterPrompt of
        JString finalPrompt \<Rightarrow> Inr (if trim finalPrompt = [] then masterPrompt else finalPrompt)
      | _ \<Rightarrow> Inl TypeError)"

subsection \<open>The handlers\<close>

definition imageFailedMessages :: "jsstr list" where
  "imageFailedMessages =
     [str ''Image generation failed.'',
      str ''Please check your API key or try a different prompt.'']"

text \<open>\<open>handleAnimate\<close> of \<open>App\<close>: one 16:9 image for the prompt.\<close>

definition handleAnimate :: "service \<Rightarrow> app_state \<Rightarrow> jsstr \<Rightarrow> app_state \<times> net_call list" where
  "handleAnimate ai st prompt =
     (let st0 = st\<lparr>savingTitle := str ''Generating your scene...'', isSaving := True,
                    generationError := None\<rparr>
      in (case generateImage ai prompt (str ''16:9'') [] of
            (Inr imageBase64, calls) \<Rightarrow>
              if truthy imageBase64
              then (st0\<lparr>generatedResult :=
                          Some (str ''data:image/jpeg;base64,'' @ imageBase64, prompt),
                        isSaving := False\<rparr>, calls)
              else (st0\<lparr>generationError := Some imageFailedMessages, isSaving := False\<rparr>, calls)
          | (Inl e, calls) \<Rightarrow>
              (st0\<lparr>generationError := Some imageFailedMessages, isSaving := False\<rparr>, calls)))"

text \<open>
  \<open>handleGenerateScene\<close> of \<open>AnimateImagePage\<close>, with \<open>onAnimate\<close> bound to
  \<open>handleAnimate\<close> as \<open>App\<close> binds it. Nothing happens for an empty master
  prompt; an error thrown at line 561 leaves the handler before \<open>onAnimate\<close> is
  called. The first component is that error, if any.
\<close>

definition handleGenerateScene ::
  "service \<Rightarrow> builtins \<Rightarrow> app_state \<Rightarrow> jsstr \<Rightarrow> js_error option \<times> app_state \<times> net_call list" where
  "handleGenerateScene ai js st masterPrompt =
     (if truthy masterPrompt then
        (case chooseFinalPrompt js masterPrompt of
           Inl e \<Rightarrow> (Some e, st, [])
         | Inr finalPrompt \<Rightarrow>
             (case handleAnimate ai st finalPrompt of (st', calls) \<Rightarrow> (None, st', calls)))
      else (None, st, []))"

section \<open>What a run of the orchestrator computes\<close>

text \<open>
  Names for the values of a run of \<open>handleGenerateStoryboard\<close>, used to state its
  properties: the request of a scene, the style guide and the keywords of step 1, the
  requests issued before the request of scene \<open>i\<close>, how the image promise of scene
  \<open>i\<close> settles, and the master request with its answer.
\<close>

definition sceneImageRequest :: "jsstr \<Rightarrow> jsstr \<Rightarrow> jsstr \<Rightarrow> net_call" where
  "sceneImageRequest selectedStyle imageStyleKeywords scene =
     GenerateImages (str ''imagen-3.0-generate-002'')
       (fullPrompt selectedStyle imageStyleKeywords scene) 1 (str ''image/jpeg'') (str ''4:3'')"

definition isImageRequest :: "net_call \<Rightarrow> bool" where
  "isImageRequest c = (case c of GenerateImages m p n t a \<Rightarrow> True | _ \<Rightarrow> False)"

definition promiseOf :: "js_error + jsstr \<Rightarrow> js_error + jsstr option" where
  "promiseOf r = (case r of Inl e \<Rightarrow> Inl e | Inr img \<Rightarrow> Inr (Some img))"

definition runStyleGuide :: "service \<Rightarrow> js_file option \<Rightarrow> jsstr \<Rightarrow> jsstr" where
  "runStyleGuide ai imageFile selectedStyle = fst (fst (resolveStyle ai imageFile selectedStyle []))"

definition runKeywords :: "service \<Rightarrow> js_file option \<Rightarrow> jsstr \<Rightarrow> jsstr" where
  "runKeywords ai imageFile selectedStyle = snd (fst (resolveStyle ai imageFile selectedStyle []))"

definition runAnalysisCalls :: "service \<Rightarrow> js_file option \<Rightarrow> jsstr \<Rightarrow> net_call list" where
  "runAnalysisCalls ai imageFile selectedStyle = snd (resolveStyle ai imageFile selectedStyle [])"

definition runCallsBeforeScene ::
  "service \<Rightarrow> js_file option \<Rightarrow> jsstr \<Rightarrow> jsstr list \<Rightarrow> nat \<Rightarrow> net_call list" where
  "runCallsBeforeScene ai imageFile selectedStyle scenes i =
     runAnalysisCalls ai imageFile selectedStyle @
     map (sceneImageRequest selectedStyle (runKeywords ai imageFile selectedStyle))
       (filter (\<lambda>s. truthy (trim s)) (take i scenes))"

definition sceneImageOutcome ::
  "service \<Rightarrow> js_file option \<Rightarrow> jsstr \<Rightarrow> jsstr list \<Rightarrow> nat \<Rightarrow> js_error + jsstr" where
  "sceneImageOutcome ai imageFile selectedStyle scenes i =
     fst (generateImage ai
            (fullPrompt selectedStyle (runKeywords ai imageFile selectedStyle) (scenes ! i))
            (str ''4:3'')
            (runCallsBeforeScene ai imageFile selectedStyle scenes i))"

definition runSceneImages ::
  "service \<Rightarrow> js_file option \<Rightarrow> jsstr \<Rightarrow> jsstr list \<Rightarrow> jsstr option list" where
  "runSceneImages ai imageFile selectedStyle scenes =
     map (\<lambda>i. if truthy (trim (scenes ! i))
              then (case sceneImageOutcome ai imageFile selectedStyle scenes i of
                      Inl e \<Rightarrow> None
                    | Inr img \<Rightarrow> Some img)
              else None)
       [0..<length scenes]"

definition runMasterRequest ::
  "service \<Rightarrow> js_file option \<Rightarrow> jsstr \<Rightarrow> jsstr list \<Rightarrow> prompt_format \<Rightarrow> net_call" where
  "runMasterRequest ai imageFile selectedStyle scenes promptFormat =
     masterRequest promptFormat
       (buildPromptParts (runStyleGuide ai imageFile selectedStyle) scenes
          (runSceneImages ai imageFile selectedStyle scenes))"

definition runMasterOutcome ::
  "service \<Rightarrow> js_file option \<Rightarrow> jsstr \<Rightarrow> jsstr list \<Rightarrow> prompt_format \<Rightarrow> js_error + jsstr" where
  "runMasterOutcome ai imageFile selectedStyle scenes promptFormat =
     generateContent ai
       (runCallsBeforeScene ai imageFile selectedStyle scenes (length scenes))
       (runMasterRequest ai imageFile selectedStyle scenes promptFormat)"

section \<open>The master request as the specification describes it\<close>

text \<open>
  Written from the words of the specification, to be compared with
  \<open>buildPromptParts\<close>: what the scene at index \<open>i\<close> contributes, and the whole list
  of parts.
\<close>

definition scenePartsSpec :: "jsstr list \<Rightarrow> jsstr option list \<Rightarrow> nat \<Rightarrow> part list" where
  "scenePartsSpec scenes sceneImages i =
     (if trim (scenes ! i) = [] then []
      else Text (str ''Scene '' @ numberToString (i + 1) @ str '': '' @ trim (scenes ! i)) #
           (case sceneImages ! i of
              None \<Rightarrow> []
            | Some img \<Rightarrow> [InlineData (str ''image/jpeg'') (Some img)]))"

definition masterPartsSpec :: "jsstr \<Rightarrow> jsstr list \<Rightarrow> jsstr option list \<Rightarrow> part list" where
  "masterPartsSpec styleGuide scenes sceneImages =
     [Text framingInstruction, Text (str ''--- STYLE GUIDANCE ---'' @ [10] @ styleGuide)] @
     concat (map (scenePartsSpec scenes sceneImages) [0..<length scenes])"

section \<open>Sample surroundings for concrete runs\<close>

text \<open>
  A service that rejects the requests whose position in the run (counted from 0) is
  listed, answers an image request with an image named after its position, the style
  analysis (the request without system instruction) with two keywords, and a master
  request with a text in the format asked for.
\<close>

definition sampleClassicAnswer :: jsstr where
  "sampleClassicAnswer =
     str ''--- SCENE 1 ---'' @ [10] @ str ''A candle.'' @ [10] @
     str ''--- SCENE 2 ---'' @ [10] @ str ''A sunrise.''"

definition sampleJsonAnswer :: jsstr where
  "sampleJsonAnswer = [96, 96, 96] @ str ''json'' @ [10] @ str ''[1]'' @ [10] @ [96, 96, 96]"

definition scriptedService :: "nat list \<Rightarrow> service" where
  "scriptedService rejected =
     \<lparr>generateContent = (\<lambda>calls request.
        if length calls \<in> set rejected then Inl (Rejection (str ''unavailable''))
        else (case request of
                GenerateContent m parts None \<Rightarrow> Inr (str ''moody, blue'')
              | GenerateContent m parts (Some classicSystemInstruction) \<Rightarrow> Inr sampleClassicAnswer
              | GenerateContent m parts (Some jsonSystemInstruction) \<Rightarrow> Inr sampleJsonAnswer
              | _ \<Rightarrow> Inl (Rejection (str ''bad request'')))),
      generateImages = (\<lambda>calls request.
        if length calls \<in> set rejected then Inl (Rejection (str ''unavailable''))
        else Inr (GenerateImagesResponse
                    (Some [GeneratedImage
                             (Some (Image (Some (str ''img'' @ numberToString (length calls)))))])))\<rparr>"

text \<open>
  The values of \<open>JSON.parse\<close> and \<open>JSON.stringify(v, null, 2)\<close> at the texts and
  values of the examples below. Every other text is rejected, which is what
  \<open>JSON.parse\<close> does for the other texts the examples give it (none of them is
  JSON). A number beyond the range of a double, as \<open>1e400\<close>, is parsed as
  \<open>Infinity\<close>, which \<open>JSON.stringify\<close> prints as \<open>null\<close>.
\<close>

definition quoted :: "jsstr \<Rightarrow> jsstr" where
  "quoted s = [34] @ s @ [34]"

definition sampleArrayText :: jsstr where
  "sampleArrayText =
     str ''[{'' @ quoted (str ''generation_prompt'') @ str '':'' @ quoted (str ''a red door'') @ str ''}]''"

definition sampleWrapperText :: jsstr where
  "sampleWrapperText =
     str ''{'' @ quoted (str ''scenes'') @ str '':[{'' @ quoted (str ''generation_prompt'') @
     str '':'' @ quoted (str ''a blue door'') @ str ''}]}''"

definition sampleBlankPromptText :: jsstr where
  "sampleBlankPromptText =
     str ''[{'' @ quoted (str ''generation_prompt'') @ str '':'' @ quoted (str ''  '') @ str ''}]''"

definition samplePrettyText :: jsstr where
  "samplePrettyText = str ''['' @ [10] @ str ''  1'' @ [10] @ str '']''"

definition sampleNoteText :: jsstr where
  "sampleNoteText =
     str ''[{'' @ quoted (str ''note'') @ str '':'' @ quoted (str ''--- SCENE 1 --- a candle'') @
     str ''}]''"

definition sampleOverflowText :: jsstr where
  "sampleOverflowText = str ''[1e400]''"

definition sampleNullPrettyText :: jsstr where
  "sampleNullPrettyText = str ''['' @ [10] @ str ''  null'' @ [10] @ str '']''"

definition sampleJs :: builtins where
  "sampleJs =
     \<lparr>JSON_parse = (\<lambda>s.
        if s = str ''[1]'' \<or> s = samplePrettyText
        then Some (JArray [JNumber (Finite 1)])
        else if s = sampleArrayText
        then Some (JArray [JObject [(str ''generation_prompt'', JString (str ''a red door''))]])
        else if s = sampleWrapperText
        then Some (JObject [(str ''scenes'',
               JArray [JObject [(str ''generation_prompt'', JString (str ''a blue door''))]])])
        else if s = sampleBlankPromptText
        then Some (JArray [JObject [(str ''generation_prompt'', JString (str ''  ''))]])
        else if s = sampleNoteText
        then Some (JArray [JObject [(str ''note'', JString (str ''--- SCENE 1 --- a candle''))]])
        else if s = sampleOverflowText
        then Some (JArray [JNumber PosInfinity])
        else if s = sampleNullPrettyText
        then Some (JArray [JNull])
        else None),
      JSON_stringify = (\<lambda>v.
        if v = JArray [JNumber (Finite 1)] then samplePrettyText
        else if v = JArray [JNumber PosInfinity] then sampleNullPrettyText
        else []),
      toNumber_gt0 = (\<lambda>v. False)\<rparr>"

definition sampleState :: app_state where
  "sampleState =
     \<lparr>isSaving = False, savingTitle = [], generationError = Some [str ''an earlier error''],
      generatedResult = None\<rparr>"

definition samplePage :: page_state where
  "samplePage =
     \<lparr>page_masterPrompt = str ''an earlier prompt'', page_visualStoryboard = [Some (str ''old'')],
      generator_visualStoryboard = [Some (str ''old'')], generator_isGenerating = False\<rparr>"

definition sampleFile :: js_file where
  "sampleFile =
     \<lparr>file_type = str ''image/png'',
      readAsDataURL = Inr (str ''data:image/png;base64,AAAA'')\<rparr>"

section \<open>Properties of the string functions\<close>

lemma trim_Nil [simp]: "trim [] = []"
  by (simp add: trim_def)

section \<open>Validation: no scene, no request\<close>

lemma no_nonblank_filter:
  "(\<forall>s\<in>set scenes. trim s = []) \<Longrightarrow> filter (\<lambda>s. truthy (trim s)) scenes = []"
  by (simp add: truthy_def filter_empty_conv)

lemma blank_examples:
  "trim (str ''   '') = []" "trim [9, 10] = []"
  by (simp_all add: trim_def isWhiteSpace_def isLineTerminator_def str_def)

text \<open>
  C3. When every scene is empty or whitespace after trimming, the orchestrator throws
  the error that asks for at least one scene, shows the same message to the user, and
  has issued no request at all: no style analysis, no image generation, no master
  synthesis.
\<close>

theorem C3_blank_scenes_fail_without_requests:
  assumes "\<forall>s\<in>set scenes. trim s = []"
  shows "handleGenerateStoryboard ai js st scenes imageFile selectedStyle promptFormat =
           (Inl (Error (str ''Please add at least one scene to the storyboard.'')),
            st\<lparr>generationError :=
                 Some [str ''Please add at least one scene to the storyboard.'']\<rparr>,
            [])"
  using no_nonblank_filter [OF assms]
  by (simp add: handleGenerateStoryboard_def Let_def noScenesMessage_def)

theorem C3_witness:
  "trim (str ''   '') = [] \<and> trim [9, 10] = [] \<and> trim [] = [] \<and>
   handleGenerateStoryboard (scriptedService []) sampleJs sampleState
       [str ''   '', [9, 10], []] (Some sampleFile) (str ''Noir Thriller'') classic =
     (Inl (Error (str ''Please add at least one scene to the storyboard.'')),
      sampleState\<lparr>generationError :=
         Some [str ''Please add at least one scene to the storyboard.'']\<rparr>,
      [])"
proof -
  have h: "\<forall>s\<in>set [str ''   '', [9, 10], []]. trim s = []"
    by (simp add: blank_examples)
  show ?thesis
    using C3_blank_scenes_fail_without_requests [OF h, of "scriptedService []" sampleJs sampleState
        "Some sampleFile" "str ''Noir Thriller''" classic]
    by (simp add: blank_examples)
qed

section \<open>The image promises of a run\<close>

lemma generateImage_calls:
  "snd (generateImage ai prompt aspectRatio calls) =
     calls @ [GenerateImages (str ''imagen-3.0-generate-002'') prompt 1 (str ''image/jpeg'') aspectRatio]"
  by (simp add: generateImage_def Let_def)

lemma generateImage_scene_calls:
  "snd (generateImage ai (fullPrompt sel kw scene) (str ''4:3'') calls) =
     calls @ [sceneImageRequest sel kw scene]"
  by (simp add: generateImage_calls sceneImageRequest_def)

lemma generateImage_truthy:
  "fst (generateImage ai prompt aspectRatio calls) = Inr img \<Longrightarrow> img \<noteq> []"
  by (auto simp: generateImage_def Let_def truthy_def split: sum.splits option.splits if_splits)

lemma imagePromises_calls:
  "snd (imagePromises ai sel kw scenes calls) =
     calls @ map (sceneImageRequest sel kw) (filter (\<lambda>s. truthy (trim s)) scenes)"
proof (induction scenes arbitrary: calls)
  case Nil
  show ?case by simp
next
  case (Cons scene scenes)
  show ?case
    using Cons.IH generateImage_scene_calls [of ai sel kw scene calls]
    by (auto simp: split_beta split: prod.splits sum.splits)
qed

lemma imagePromises_length:
  "length (fst (imagePromises ai sel kw scenes calls)) = length scenes"
  by (induction scenes arbitrary: calls) (auto simp: split_beta split: prod.splits sum.splits)

lemma imagePromises_nth:
  "i < length scenes \<Longrightarrow>
   fst (imagePromises ai sel kw scenes calls) ! i =
     (if truthy (trim (scenes ! i))
      then promiseOf (fst (generateImage ai (fullPrompt sel kw (scenes ! i)) (str ''4:3'')
             (calls @ map (sceneImageRequest sel kw)
                        (filter (\<lambda>s. truthy (trim s)) (take i scenes)))))
      else Inr None)"
proof (induction scenes arbitrary: calls i)
  case Nil
  then show ?case by simp
next
  case (Cons scene scenes)
  show ?case
  proof (cases i)
    case 0
    then show ?thesis
      by (auto simp: split_beta promiseOf_def split: prod.splits sum.splits)
  next
    case (Suc k)
    with Cons.prems have k: "k < length scenes" by simp
    show ?thesis
      using Cons.IH [OF k] generateImage_scene_calls [of ai sel kw scene calls] Suc
      by (auto simp: split_beta split: prod.splits sum.splits)
  qed
qed

lemma settled_promiseOf:
  "settledValue (promiseOf r) = (case r of Inl e \<Rightarrow> None | Inr img \<Rightarrow> Some img)"
  by (simp add: settledValue_def promiseOf_def split: sum.splits)

lemma settled_null: "settledValue (Inr None) = None"
  by (simp add: settledValue_def)

lemma settled_images:
  "map settledValue
     (fst (imagePromises ai sel (runKeywords ai f sel) scenes (runAnalysisCalls ai f sel))) =
   runSceneImages ai f sel scenes"
proof (rule nth_equalityI)
  show "length (map settledValue
          (fst (imagePromises ai sel (runKeywords ai f sel) scenes (runAnalysisCalls ai f sel)))) =
        length (runSceneImages ai f sel scenes)"
    by (simp add: imagePromises_length runSceneImages_def)
next
  fix i
  assume "i < length (map settledValue
          (fst (imagePromises ai sel (runKeywords ai f sel) scenes (runAnalysisCalls ai f sel))))"
  then have i: "i < length scenes"
    by (simp add: imagePromises_length)
  show "map settledValue
          (fst (imagePromises ai sel (runKeywords ai f sel) scenes (runAnalysisCalls ai f sel))) ! i =
        runSceneImages ai f sel scenes ! i"
    using i
    by (simp add: imagePromises_length imagePromises_nth runSceneImages_def settled_promiseOf
        sceneImageOutcome_def runCallsBeforeScene_def settled_null)
qed

lemma nonblank_filter:
  "(\<exists>s\<in>set scenes. truthy (trim s)) \<longleftrightarrow> filter (\<lambda>s. truthy (trim s)) scenes \<noteq> []"
  by (simp add: filter_empty_conv)

text \<open>
  A run with a scene that is not blank, in terms of the values named above: the
  requests are those of step 1, one image request per scene that is not blank, and the
  master request; the outcome is decided by the answer to the master request alone.
\<close>

lemma handleGenerateStoryboard_run:
  assumes "\<exists>s\<in>set scenes. truthy (trim s)"
  shows "handleGenerateStoryboard ai js st scenes f sel fmt =
     (case runMasterOutcome ai f sel scenes fmt of
        Inr text \<Rightarrow>
          (Inr (postProcess js fmt text, runSceneImages ai f sel scenes),
           st\<lparr>generationError := None\<rparr>,
           runCallsBeforeScene ai f sel scenes (length scenes) @ [runMasterRequest ai f sel scenes fmt])
      | Inl e \<Rightarrow>
          (Inl (Error (str ''Could not generate storyboard.'')),
           st\<lparr>generationError := Some storyboardFailedMessages\<rparr>,
           runCallsBeforeScene ai f sel scenes (length scenes) @ [runMasterRequest ai f sel scenes fmt]))"
proof -
  have ne: "filter (\<lambda>s. truthy (trim s)) scenes \<noteq> []"
    using assms by (simp add: nonblank_filter)
  obtain sg kw calls1 where rs: "resolveStyle ai f sel [] = ((sg, kw), calls1)"
    by (metis surj_pair)
  have sg: "runStyleGuide ai f sel = sg" and kw: "runKeywords ai f sel = kw"
    and c1: "runAnalysisCalls ai f sel = calls1"
    by (simp_all add: runStyleGuide_def runKeywords_def runAnalysisCalls_def rs)
  obtain results calls2 where ip: "imagePromises ai sel kw scenes calls1 = (results, calls2)"
    by (metis surj_pair)
  have imgs: "map settledValue results = runSceneImages ai f sel scenes"
    using settled_images [of ai sel f scenes] by (simp add: kw c1 ip)
  have c2: "calls2 = runCallsBeforeScene ai f sel scenes (length scenes)"
    using imagePromises_calls [of ai sel kw scenes calls1]
    by (simp add: ip runCallsBeforeScene_def kw c1)
  show ?thesis
    using ne
    by (simp add: handleGenerateStoryboard_def Let_def rs ip imgs c2 [symmetric]
        runMasterOutcome_def runMasterRequest_def sg split: sum.splits)
qed

section \<open>The requests and the result of a run\<close>

lemma str_Nil [simp]: "str [] = []"
  by (simp add: str_def)

lemma str_eq_Nil [simp]: "str s = [] \<longleftrightarrow> s = []"
  by (simp add: str_def)

lemma analysis_calls_no_image:
  "filter isImageRequest (runAnalysisCalls ai f sel) = []"
  by (auto simp: runAnalysisCalls_def resolveStyle_def analyzeImageStyle_def Let_def
      isImageRequest_def split: option.splits sum.splits prod.splits)

lemma scene_requests_are_images:
  "filter isImageRequest (map (sceneImageRequest sel kw) xs) = map (sceneImageRequest sel kw) xs"
  by (induction xs) (simp_all add: isImageRequest_def sceneImageRequest_def)

lemma master_request_no_image: "\<not> isImageRequest (runMasterRequest ai f sel scenes fmt)"
  by (simp add: runMasterRequest_def masterRequest_def isImageRequest_def)

lemma run_calls:
  assumes "\<exists>s\<in>set scenes. truthy (trim s)"
  shows "snd (snd (handleGenerateStoryboard ai js st scenes f sel fmt)) =
         runCallsBeforeScene ai f sel scenes (length scenes) @ [runMasterRequest ai f sel scenes fmt]"
  by (simp add: handleGenerateStoryboard_run [OF assms] split: sum.splits)

lemma run_image_requests:
  assumes "\<exists>s\<in>set scenes. truthy (trim s)"
  shows "filter isImageRequest (snd (snd (handleGenerateStoryboard ai js st scenes f sel fmt))) =
         map (sceneImageRequest sel (runKeywords ai f sel)) (filter (\<lambda>s. truthy (trim s)) scenes)"
  by (simp add: run_calls [OF assms] runCallsBeforeScene_def analysis_calls_no_image
      scene_requests_are_images master_request_no_image)

lemma run_result:
  assumes "\<exists>s\<in>set scenes. truthy (trim s)"
  shows "fst (handleGenerateStoryboard ai js st scenes f sel fmt) =
         (case runMasterOutcome ai f sel scenes fmt of
            Inr text \<Rightarrow> Inr (postProcess js fmt text, runSceneImages ai f sel scenes)
          | Inl e \<Rightarrow> Inl (Error (str ''Could not generate storyboard.'')))"
  by (simp add: handleGenerateStoryboard_run [OF assms] split: sum.splits)

lemma length_runSceneImages: "length (runSceneImages ai f sel scenes) = length scenes"
  by (simp add: runSceneImages_def)

lemma length_filter_partition:
  "length xs = length (filter P xs) + length (filter (\<lambda>x. \<not> P x) xs)"
  by (induction xs) simp_all

text \<open>
  C2, as the code has it. A run with a scene that is not blank issues exactly one
  image request per scene that is not blank, in array order and with the prompt of
  that scene, and none for a blank scene. The sequence it returns has one entry per
  scene of the array, blank ones included, so its length is the number of image
  requests plus the number of blank scenes.
\<close>

theorem C2_one_request_per_nonblank_scene:
  assumes "\<exists>s\<in>set scenes. truthy (trim s)"
    and "handleGenerateStoryboard ai js st scenes imageFile selectedStyle promptFormat = (r, st', calls)"
  shows "filter isImageRequest calls =
           map (sceneImageRequest selectedStyle (runKeywords ai imageFile selectedStyle))
             (filter (\<lambda>s. truthy (trim s)) scenes) \<and>
         (\<forall>prompts sceneImages. r = Inr (prompts, sceneImages) \<longrightarrow>
            length sceneImages = length scenes \<and>
            length sceneImages =
              length (filter isImageRequest calls) +
              length (filter (\<lambda>s. \<not> truthy (trim s)) scenes))"
proof -
  have calls: "filter isImageRequest calls =
           map (sceneImageRequest selectedStyle (runKeywords ai imageFile selectedStyle))
             (filter (\<lambda>s. truthy (trim s)) scenes)"
    using run_image_requests [OF assms(1), of ai js st imageFile selectedStyle promptFormat]
    by (simp add: assms(2))
  have r: "r = (case runMasterOutcome ai imageFile selectedStyle scenes promptFormat of
            Inr text \<Rightarrow> Inr (postProcess js promptFormat text,
                          runSceneImages ai imageFile selectedStyle scenes)
          | Inl e \<Rightarrow> Inl (Error (str ''Could not generate storyboard.'')))"
    using run_result [OF assms(1), of ai js st imageFile selectedStyle promptFormat]
    by (simp add: assms(2))
  have len: "\<And>prompts sceneImages. r = Inr (prompts, sceneImages) \<Longrightarrow>
      length sceneImages = length scenes"
    using r by (auto simp: length_runSceneImages split: sum.splits)
  show ?thesis
    using calls len length_filter_partition [of scenes "\<lambda>s. truthy (trim s)"]
    by simp
qed


lemma runSceneImages_nth:
  "j < length scenes \<Longrightarrow>
   runSceneImages ai f sel scenes ! j =
     (if truthy (trim (scenes ! j))
      then (case sceneImageOutcome ai f sel scenes j of Inl e \<Rightarrow> None | Inr img \<Rightarrow> Some img)
      else None)"
  by (simp add: runSceneImages_def)

text \<open>
  C1, as the code has it. Let the image request of scene \<open>i\<close> fail and the image
  request of every other scene that is not blank succeed. The run still issues the
  master request, after all image requests; and when that request is answered, the run
  returns a sequence with one entry per scene, in which entry \<open>j\<close> is \<open>null\<close>
  exactly when \<open>j = i\<close> or scene \<open>j\<close> is blank, and every other entry \<open>j\<close> is the
  image the service returned for the request of scene \<open>j\<close>.
\<close>

theorem C1_one_failed_image_is_local:
  assumes "i < length scenes" and "truthy (trim (scenes ! i))"
    and "isl (sceneImageOutcome ai imageFile selectedStyle scenes i)"
    and "\<forall>j<length scenes. j \<noteq> i \<and> truthy (trim (scenes ! j)) \<longrightarrow>
           \<not> isl (sceneImageOutcome ai imageFile selectedStyle scenes j)"
    and "handleGenerateStoryboard ai js st scenes imageFile selectedStyle promptFormat = (r, st', calls)"
  shows "calls =
           runCallsBeforeScene ai imageFile selectedStyle scenes (length scenes) @
           [runMasterRequest ai imageFile selectedStyle scenes promptFormat] \<and>
         (\<forall>text. runMasterOutcome ai imageFile selectedStyle scenes promptFormat = Inr text \<longrightarrow>
            (\<exists>sceneImages.
               r = Inr (postProcess js promptFormat text, sceneImages) \<and>
               length sceneImages = length scenes \<and>
               (\<forall>j<length scenes.
                  (sceneImages ! j = None) = (j = i \<or> \<not> truthy (trim (scenes ! j)))) \<and>
               (\<forall>j<length scenes. j \<noteq> i \<and> truthy (trim (scenes ! j)) \<longrightarrow>
                  (\<exists>img. sceneImages ! j = Some img \<and>
                     sceneImageOutcome ai imageFile selectedStyle scenes j = Inr img))))"
proof -
  have ne: "\<exists>s\<in>set scenes. truthy (trim s)"
    using assms(1,2) nth_mem by blast
  have calls: "calls =
           runCallsBeforeScene ai imageFile selectedStyle scenes (length scenes) @
           [runMasterRequest ai imageFile selectedStyle scenes promptFormat]"
    using run_calls [OF ne, of ai js st imageFile selectedStyle promptFormat]
    by (simp add: assms(5))
  have r: "r = (case runMasterOutcome ai imageFile selectedStyle scenes promptFormat of
            Inr text \<Rightarrow> Inr (postProcess js promptFormat text,
                          runSceneImages ai imageFile selectedStyle scenes)
          | Inl e \<Rightarrow> Inl (Error (str ''Could not generate storyboard.'')))"
    using run_result [OF ne, of ai js st imageFile selectedStyle promptFormat]
    by (simp add: assms(5))
  have null: "\<forall>j<length scenes.
      (runSceneImages ai imageFile selectedStyle scenes ! j = None) =
      (j = i \<or> \<not> truthy (trim (scenes ! j)))"
  proof (intro allI impI)
    fix j assume j: "j < length scenes"
    show "(runSceneImages ai imageFile selectedStyle scenes ! j = None) =
      (j = i \<or> \<not> truthy (trim (scenes ! j)))"
    proof (cases "j = i")
      case True
      then show ?thesis
        using assms(3) j by (auto simp: runSceneImages_nth isl_def)
    next
      case False
      then show ?thesis
        using assms(4) j by (auto simp: runSceneImages_nth isl_def split: sum.splits)
    qed
  qed
  have img: "\<forall>j<length scenes. j \<noteq> i \<and> truthy (trim (scenes ! j)) \<longrightarrow>
      (\<exists>img. runSceneImages ai imageFile selectedStyle scenes ! j = Some img \<and>
         sceneImageOutcome ai imageFile selectedStyle scenes j = Inr img)"
    using assms(4) by (auto simp: runSceneImages_nth isl_def split: sum.splits)
  show ?thesis
    using calls r null img by (simp add: length_runSceneImages)
qed


section \<open>Concrete runs\<close>

lemma trim_samples:
  "trim (str ''a candle'') = str ''a candle''"
  "trim (str ''a sunrise'') = str ''a sunrise''"
  by (simp_all add: trim_def isWhiteSpace_def isLineTerminator_def str_def)

lemma numberToString_digits:
  "numberToString 0 = str ''0''" "numberToString 1 = str ''1''" "numberToString 2 = str ''2''"
  "numberToString (Suc 0) = str ''1''"
  by (simp_all add: numberToString.simps str_def)

lemma str_app: "str a @ str b = str (a @ b)"
  by (simp add: str_def)

lemmas run_eval = str_app
  handleGenerateStoryboard_def resolveStyle_def Let_def generateImage_def firstImageBytes_def
  scriptedService_def trim_samples truthy_def sceneImageRequest_def masterRequest_def
  settledValue_def postProcess_def numberToString_digits analyzeImageStyle_def sampleFile_def

text \<open>
  C1 as stated fails: of the scenes \<open>a candle\<close> and the empty scene, only the first
  gets an image request; when that one request fails, the returned sequence has two
  \<open>null\<close> entries, not exactly one.
\<close>

theorem C1_counterexample:
  "handleGenerateStoryboard (scriptedService [0]) sampleJs sampleState
      [str ''a candle'', []] None (str ''Noir Thriller'') classic =
   (Inr (sampleClassicAnswer, [None, None]), sampleState\<lparr>generationError := None\<rparr>,
    [sceneImageRequest (str ''Noir Thriller'') [] (str ''a candle''),
     masterRequest classic
       (buildPromptParts (initialStyleGuide (str ''Noir Thriller''))
          [str ''a candle'', []] [None, None])]) \<and>
   generateImages (scriptedService [0]) []
      (sceneImageRequest (str ''Noir Thriller'') [] (str ''a candle'')) =
     Inl (Rejection (str ''unavailable'')) \<and>
   count_list [None, None :: jsstr option] None = 2"
  by (simp add: run_eval)

text \<open>
  C2 as stated fails: for the scenes \<open>a candle\<close> and the empty scene the run issues
  one image request, not one per scene of the array, and returns a sequence of length
  2, not of the length of the number of requests.
\<close>

theorem C2_counterexample:
  "handleGenerateStoryboard (scriptedService []) sampleJs sampleState
      [str ''a candle'', []] None (str ''Noir Thriller'') classic =
   (Inr (sampleClassicAnswer, [Some (str ''img0''), None]),
    sampleState\<lparr>generationError := None\<rparr>,
    [sceneImageRequest (str ''Noir Thriller'') [] (str ''a candle''),
     masterRequest classic
       (buildPromptParts (initialStyleGuide (str ''Noir Thriller''))
          [str ''a candle'', []] [Some (str ''img0''), None])]) \<and>
   length (filter isImageRequest
      [sceneImageRequest (str ''Noir Thriller'') [] (str ''a candle''),
       masterRequest classic
         (buildPromptParts (initialStyleGuide (str ''Noir Thriller''))
            [str ''a candle'', []] [Some (str ''img0''), None])]) = 1 \<and>
   length [str ''a candle'', []] = 2 \<and>
   length [Some (str ''img0''), None] = 2"
  by (simp add: run_eval isImageRequest_def)


lemmas outcome_eval =
  sceneImageOutcome_def runCallsBeforeScene_def runAnalysisCalls_def runKeywords_def
  runMasterOutcome_def runMasterRequest_def runStyleGuide_def runSceneImages_def

lemma run_three_scenes:
  "handleGenerateStoryboard (scriptedService [0]) sampleJs sampleState
      [str ''a candle'', [], str ''a sunrise''] None (str ''Noir Thriller'') classic =
   (Inr (sampleClassicAnswer, [None, None, Some (str ''img1'')]),
    sampleState\<lparr>generationError := None\<rparr>,
    [sceneImageRequest (str ''Noir Thriller'') [] (str ''a candle''),
     sceneImageRequest (str ''Noir Thriller'') [] (str ''a sunrise''),
     masterRequest classic
       (buildPromptParts (initialStyleGuide (str ''Noir Thriller''))
          [str ''a candle'', [], str ''a sunrise''] [None, None, Some (str ''img1'')])])"
  by (simp add: run_eval)

lemma outcomes_three_scenes:
  "sceneImageOutcome (scriptedService [0]) None (str ''Noir Thriller'')
      [str ''a candle'', [], str ''a sunrise''] 0 = Inl (Rejection (str ''unavailable''))"
  "sceneImageOutcome (scriptedService [0]) None (str ''Noir Thriller'')
      [str ''a candle'', [], str ''a sunrise''] 2 = Inr (str ''img1'')"
  by (simp_all add: outcome_eval run_eval)

lemma others_succeed_three_scenes:
  "\<forall>j<length [str ''a candle'', [], str ''a sunrise'']. j \<noteq> 0 \<and> truthy (trim ([str ''a candle'', [], str ''a sunrise''] ! j)) \<longrightarrow>
      \<not> isl (sceneImageOutcome (scriptedService [0]) None (str ''Noir Thriller'') [str ''a candle'', [], str ''a sunrise''] j)"
proof (intro allI impI)
  fix j
  assume j: "j < length [str ''a candle'', [], str ''a sunrise'']"
    and nb: "j \<noteq> 0 \<and> truthy (trim ([str ''a candle'', [], str ''a sunrise''] ! j))"
  from j nb have "j = 1 \<or> j = 2" by auto
  then show "\<not> isl (sceneImageOutcome (scriptedService [0]) None (str ''Noir Thriller'')
      [str ''a candle'', [], str ''a sunrise''] j)"
    using nb by (auto simp: outcomes_three_scenes truthy_def)
qed

text \<open>
  C1 at three scenes, the second empty, with a service that rejects the first request.
\<close>

theorem C1_witness:
  "truthy (trim (str ''a candle'')) \<and> \<not> truthy (trim []) \<and> truthy (trim (str ''a sunrise'')) \<and>
   sceneImageOutcome (scriptedService [0]) None (str ''Noir Thriller'')
      [str ''a candle'', [], str ''a sunrise''] 0 = Inl (Rejection (str ''unavailable'')) \<and>
   sceneImageOutcome (scriptedService [0]) None (str ''Noir Thriller'')
      [str ''a candle'', [], str ''a sunrise''] 2 = Inr (str ''img1'') \<and>
   fst (handleGenerateStoryboard (scriptedService [0]) sampleJs sampleState
      [str ''a candle'', [], str ''a sunrise''] None (str ''Noir Thriller'') classic) =
     Inr (sampleClassicAnswer, [None, None, Some (str ''img1'')])"
proof -
  let ?scenes = "[str ''a candle'', [], str ''a sunrise'']"
  have h1: "0 < length ?scenes" by simp
  have h2: "truthy (trim (?scenes ! 0))" by (simp add: trim_samples truthy_def)
  have h3: "isl (sceneImageOutcome (scriptedService [0]) None (str ''Noir Thriller'') ?scenes 0)"
    by (simp add: outcomes_three_scenes)
  have h4: "\<forall>j<length ?scenes. j \<noteq> 0 \<and> truthy (trim (?scenes ! j)) \<longrightarrow>
      \<not> isl (sceneImageOutcome (scriptedService [0]) None (str ''Noir Thriller'') ?scenes j)"
    by (rule others_succeed_three_scenes)
  note calls = C1_one_failed_image_is_local [OF h1 h2 h3 h4 run_three_scenes, THEN conjunct1]
  show ?thesis
    using calls
    by (simp add: outcomes_three_scenes trim_samples truthy_def run_three_scenes)
qed

lemma run_candle_ok:
  "handleGenerateStoryboard (scriptedService []) sampleJs sampleState
      [str ''a candle'', []] None (str ''Noir Thriller'') classic =
   (Inr (sampleClassicAnswer, [Some (str ''img0''), None]),
    sampleState\<lparr>generationError := None\<rparr>,
    [sceneImageRequest (str ''Noir Thriller'') [] (str ''a candle''),
     masterRequest classic
       (buildPromptParts (initialStyleGuide (str ''Noir Thriller''))
          [str ''a candle'', []] [Some (str ''img0''), None])])"
  by (simp add: run_eval)

text \<open>C2 at the scenes \<open>a candle\<close> and the empty scene.\<close>

theorem C2_witness:
  "truthy (trim (str ''a candle'')) \<and>
   filter isImageRequest
     (snd (snd (handleGenerateStoryboard (scriptedService []) sampleJs sampleState
        [str ''a candle'', []] None (str ''Noir Thriller'') classic))) =
     [sceneImageRequest (str ''Noir Thriller'') [] (str ''a candle'')] \<and>
   fst (handleGenerateStoryboard (scriptedService []) sampleJs sampleState
        [str ''a candle'', []] None (str ''Noir Thriller'') classic) =
     Inr (sampleClassicAnswer, [Some (str ''img0''), None])"
proof -
  have ne: "\<exists>s\<in>set [str ''a candle'', []]. truthy (trim s)"
    by (simp add: trim_samples truthy_def)
  note requests = C2_one_request_per_nonblank_scene [OF ne run_candle_ok, THEN conjunct1]
  show ?thesis
    using requests
    by (simp add: run_candle_ok trim_samples truthy_def outcome_eval resolveStyle_def)
qed

section \<open>Failures of the sub-steps\<close>

text \<open>
  C4. When the master request fails, the whole operation fails: the handler throws the
  generic error \<open>Could not generate storyboard.\<close> and sets the fixed list of two
  messages for the user. Nothing of the run is kept: the images generated so far are
  not returned, and the master prompt and both visual storyboards of the page, which
  the calling component emptied before the call, stay empty.
\<close>

theorem C4_master_failure_is_fatal:
  assumes "\<exists>s\<in>set scenes. truthy (trim s)"
    and "runMasterOutcome ai imageFile selectedStyle scenes promptFormat = Inl e"
  shows "handleGenerateStoryboard ai js st scenes imageFile selectedStyle promptFormat =
           (Inl (Error (str ''Could not generate storyboard.'')),
            st\<lparr>generationError :=
                 Some [str ''Failed to generate storyboard.'',
                       str ''Please check your connection or API key and try again.'']\<rparr>,
            runCallsBeforeScene ai imageFile selectedStyle scenes (length scenes) @
            [runMasterRequest ai imageFile selectedStyle scenes promptFormat]) \<and>
         fst (StoryboardGenerator_handleGenerateStoryboard ai js st page scenes imageFile
                selectedStyle promptFormat) =
           page\<lparr>page_masterPrompt := [], page_visualStoryboard := [],
                 generator_visualStoryboard := [], generator_isGenerating := False\<rparr>"
proof -
  have run: "handleGenerateStoryboard ai js st scenes imageFile selectedStyle promptFormat =
           (Inl (Error (str ''Could not generate storyboard.'')),
            st\<lparr>generationError := Some storyboardFailedMessages\<rparr>,
            runCallsBeforeScene ai imageFile selectedStyle scenes (length scenes) @
            [runMasterRequest ai imageFile selectedStyle scenes promptFormat])"
    by (simp add: handleGenerateStoryboard_run [OF assms(1)] assms(2))
  show ?thesis
    by (simp add: run StoryboardGenerator_handleGenerateStoryboard_def storyboardFailedMessages_def)
qed

lemma failed_analysis_style:
  assumes "fst (analyzeImageStyle ai file []) = Inl e"
  shows "runStyleGuide ai (Some file) sel = initialStyleGuide sel"
    and "runKeywords ai (Some file) sel = []"
  using assms
  by (cases "analyzeImageStyle ai file []";
      simp add: runStyleGuide_def runKeywords_def resolveStyle_def Let_def)+

lemma fullPrompt_named:
  "sel \<noteq> str ''No Style'' \<Longrightarrow> sel \<noteq> [] \<Longrightarrow>
   fullPrompt sel [] scene = sel @ str '', cinematic shot depicting '' @ trim scene"
  by (simp add: fullPrompt_def styleForPrompt_def truthy_def str_app)

text \<open>
  C5. With a reference image whose style analysis fails (the file cannot be read, or
  the service rejects the request), the run goes on: every image prompt is built
  without image-derived keywords, the master request carries the style guide of the
  selected style alone, and the run returns whenever the master request is answered.
  For a named style (any but the \<open>No Style\<close> choice) the style guide is
  \<open>Cinematic Style: <name>.\<close> and every image prompt starts with the name.
\<close>

theorem C5_style_analysis_failure_is_not_fatal:
  assumes "fst (analyzeImageStyle ai file []) = Inl e"
    and "\<exists>s\<in>set scenes. truthy (trim s)"
    and "handleGenerateStoryboard ai js st scenes (Some file) selectedStyle promptFormat =
           (r, st', calls)"
  shows "filter isImageRequest calls =
           map (sceneImageRequest selectedStyle []) (filter (\<lambda>s. truthy (trim s)) scenes) \<and>
         last calls =
           masterRequest promptFormat
             (buildPromptParts (initialStyleGuide selectedStyle) scenes
                (runSceneImages ai (Some file) selectedStyle scenes)) \<and>
         (\<forall>text. runMasterOutcome ai (Some file) selectedStyle scenes promptFormat = Inr text \<longrightarrow>
            r = Inr (postProcess js promptFormat text,
                     runSceneImages ai (Some file) selectedStyle scenes)) \<and>
         (selectedStyle \<noteq> str ''No Style'' \<longrightarrow>
            initialStyleGuide selectedStyle = str ''Cinematic Style: '' @ selectedStyle @ str ''.'' \<and>
            (selectedStyle \<noteq> [] \<longrightarrow>
               (\<forall>scene. fullPrompt selectedStyle [] scene =
                  selectedStyle @ str '', cinematic shot depicting '' @ trim scene)))"
proof -
  note style = failed_analysis_style [OF assms(1), of selectedStyle]
  have reqs: "filter isImageRequest calls =
           map (sceneImageRequest selectedStyle []) (filter (\<lambda>s. truthy (trim s)) scenes)"
    using run_image_requests [OF assms(2), of ai js st "Some file" selectedStyle promptFormat]
    by (simp add: assms(3) style)
  have calls: "calls =
      runCallsBeforeScene ai (Some file) selectedStyle scenes (length scenes) @
      [runMasterRequest ai (Some file) selectedStyle scenes promptFormat]"
    using run_calls [OF assms(2), of ai js st "Some file" selectedStyle promptFormat]
    by (simp add: assms(3))
  have last: "last calls =
           masterRequest promptFormat
             (buildPromptParts (initialStyleGuide selectedStyle) scenes
                (runSceneImages ai (Some file) selectedStyle scenes))"
    by (simp add: calls runMasterRequest_def style)
  have r: "\<forall>text. runMasterOutcome ai (Some file) selectedStyle scenes promptFormat = Inr text \<longrightarrow>
            r = Inr (postProcess js promptFormat text,
                     runSceneImages ai (Some file) selectedStyle scenes)"
    using run_result [OF assms(2), of ai js st "Some file" selectedStyle promptFormat]
    by (simp add: assms(3))
  show ?thesis
    using reqs last r by (simp add: initialStyleGuide_def fullPrompt_named)
qed


section \<open>The parts of the master request\<close>

lemma pushScene_append:
  "pushScene imgs acc x = acc @ pushScene imgs [] x"
  by (cases x) (simp add: pushScene_def Let_def split: option.splits)

lemma foldl_pushScene:
  "foldl (pushScene imgs) acc (enumerate n xs) =
     acc @ concat (map (pushScene imgs []) (enumerate n xs))"
proof (induction xs arbitrary: acc n)
  case Nil
  show ?case by simp
next
  case (Cons x xs)
  show ?case
    using Cons.IH [of "pushScene imgs acc (n, x)" "Suc n"] pushScene_append [of imgs acc "(n, x)"]
    by simp
qed

lemma js_index_nth: "i < length xs \<Longrightarrow> js_index xs i = Some (xs ! i)"
  by (induction xs i rule: js_index.induct) simp_all

lemma pushScene_spec:
  assumes "i < length scenes" and "length imgs = length scenes" and "imgs ! i \<noteq> Some []"
  shows "pushScene imgs [] (i, scenes ! i) = scenePartsSpec scenes imgs i"
  using assms
  by (auto simp: pushScene_def scenePartsSpec_def Let_def js_index_nth truthy_def
      split: option.splits)

lemma buildPromptParts_spec:
  assumes "length imgs = length scenes" and "Some [] \<notin> set imgs"
  shows "buildPromptParts styleGuide scenes imgs = masterPartsSpec styleGuide scenes imgs"
proof -
  have "map (pushScene imgs []) (enumerate 0 scenes) =
        map (scenePartsSpec scenes imgs) [0..<length scenes]"
  proof (rule nth_equalityI)
    show "length (map (pushScene imgs []) (enumerate 0 scenes)) =
          length (map (scenePartsSpec scenes imgs) [0..<length scenes])"
      by simp
  next
    fix i
    assume "i < length (map (pushScene imgs []) (enumerate 0 scenes))"
    then have i: "i < length scenes" by simp
    then have "imgs ! i \<noteq> Some []"
      using assms by (metis nth_mem)
    then show "map (pushScene imgs []) (enumerate 0 scenes) ! i =
               map (scenePartsSpec scenes imgs) [0..<length scenes] ! i"
      using i assms(1) by (simp add: nth_enumerate_eq pushScene_spec)
  qed
  then show ?thesis
    by (simp add: buildPromptParts_def masterPartsSpec_def foldl_pushScene)
qed

lemma sceneImageOutcome_truthy:
  "sceneImageOutcome ai f sel scenes i = Inr img \<Longrightarrow> img \<noteq> []"
  by (simp add: sceneImageOutcome_def generateImage_truthy)

lemma runSceneImages_truthy: "Some [] \<notin> set (runSceneImages ai f sel scenes)"
  by (auto simp: runSceneImages_def dest: sceneImageOutcome_truthy split: if_splits sum.splits)

text \<open>
  C7. The master request of a run holds, in order: the framing instruction, the style
  guidance, and then for each scene of the array that is not blank, in array order,
  its text part \<open>Scene <index + 1>: <trimmed text>\<close>, followed by one inline JPEG
  part exactly when the run has an image for that index; a blank scene contributes
  nothing. The loop of the source (\<open>buildPromptParts\<close>) is compared with this
  description (\<open>scenePartsSpec\<close>).
\<close>

theorem C7_master_request_parts:
  assumes "\<exists>s\<in>set scenes. truthy (trim s)"
    and "handleGenerateStoryboard ai js st scenes imageFile selectedStyle promptFormat =
           (r, st', calls)"
  shows "last calls =
           GenerateContent (str ''gemini-2.5-flash'')
             ([Text framingInstruction,
               Text (str ''--- STYLE GUIDANCE ---'' @ [10] @
                     runStyleGuide ai imageFile selectedStyle)] @
              concat (map (scenePartsSpec scenes (runSceneImages ai imageFile selectedStyle scenes))
                        [0..<length scenes]))
             (Some (if promptFormat = json then jsonSystemInstruction
                    else classicSystemInstruction)) \<and>
         (\<forall>prompts sceneImages. r = Inr (prompts, sceneImages) \<longrightarrow>
            sceneImages = runSceneImages ai imageFile selectedStyle scenes)"
proof -
  have calls: "calls =
      runCallsBeforeScene ai imageFile selectedStyle scenes (length scenes) @
      [runMasterRequest ai imageFile selectedStyle scenes promptFormat]"
    using run_calls [OF assms(1), of ai js st imageFile selectedStyle promptFormat]
    by (simp add: assms(2))
  have parts: "buildPromptParts (runStyleGuide ai imageFile selectedStyle) scenes
                 (runSceneImages ai imageFile selectedStyle scenes) =
               masterPartsSpec (runStyleGuide ai imageFile selectedStyle) scenes
                 (runSceneImages ai imageFile selectedStyle scenes)"
    by (rule buildPromptParts_spec) (simp_all add: length_runSceneImages runSceneImages_truthy)
  have r: "\<forall>prompts sceneImages. r = Inr (prompts, sceneImages) \<longrightarrow>
            sceneImages = runSceneImages ai imageFile selectedStyle scenes"
    using run_result [OF assms(1), of ai js st imageFile selectedStyle promptFormat]
    by (auto simp: assms(2) split: sum.splits)
  show ?thesis
    using r by (simp add: calls runMasterRequest_def parts masterPartsSpec_def masterRequest_def)
qed


section \<open>The \<open>No Style\<close> choice\<close>

lemma fullPrompt_No_Style:
  "fullPrompt (str ''No Style'') kw scene =
     (if kw \<noteq> [] then kw @ str '', '' else []) @ str ''cinematic shot depicting '' @ trim scene"
  by (simp add: fullPrompt_def styleForPrompt_def truthy_def)

lemma runStyleGuide_No_Style:
  "\<exists>rest. runStyleGuide ai f (str ''No Style'') = noStyleSentence @ rest"
proof (cases f)
  case None
  then show ?thesis
    by (simp add: runStyleGuide_def resolveStyle_def initialStyleGuide_def)
next
  case (Some imgFile)
  then show ?thesis
    by (cases "analyzeImageStyle ai imgFile []")
      (auto simp: runStyleGuide_def resolveStyle_def initialStyleGuide_def Let_def
        split: sum.splits)
qed

text \<open>
  C9. With the \<open>No Style\<close> choice and no image-derived keywords, the image prompt of
  every scene that is not blank is exactly \<open>cinematic shot depicting\<close> and the
  trimmed scene text: the name \<open>No Style\<close> is not put into it. The style guide sent
  with the master request starts with the fallback sentence.
\<close>

theorem C9_no_style_never_in_image_prompt:
  assumes "\<exists>s\<in>set scenes. truthy (trim s)"
    and "runKeywords ai imageFile (str ''No Style'') = []"
    and "handleGenerateStoryboard ai js st scenes imageFile (str ''No Style'') promptFormat =
           (r, st', calls)"
  shows "filter isImageRequest calls =
           map (\<lambda>scene. GenerateImages (str ''imagen-3.0-generate-002'')
                          (str ''cinematic shot depicting '' @ trim scene) 1
                          (str ''image/jpeg'') (str ''4:3''))
             (filter (\<lambda>s. truthy (trim s)) scenes) \<and>
         last calls =
           masterRequest promptFormat
             (buildPromptParts (runStyleGuide ai imageFile (str ''No Style'')) scenes
                (runSceneImages ai imageFile (str ''No Style'') scenes)) \<and>
         (\<exists>rest. runStyleGuide ai imageFile (str ''No Style'') = noStyleSentence @ rest)"
proof -
  have reqs: "filter isImageRequest calls =
           map (sceneImageRequest (str ''No Style'') []) (filter (\<lambda>s. truthy (trim s)) scenes)"
    using run_image_requests [OF assms(1), of ai js st imageFile "str ''No Style''" promptFormat]
    by (simp add: assms(2,3))
  have req: "sceneImageRequest (str ''No Style'') [] =
      (\<lambda>scene. GenerateImages (str ''imagen-3.0-generate-002'')
                          (str ''cinematic shot depicting '' @ trim scene) 1
                          (str ''image/jpeg'') (str ''4:3''))"
    by (rule ext) (simp add: sceneImageRequest_def fullPrompt_No_Style)
  have calls: "calls =
      runCallsBeforeScene ai imageFile (str ''No Style'') scenes (length scenes) @
      [runMasterRequest ai imageFile (str ''No Style'') scenes promptFormat]"
    using run_calls [OF assms(1), of ai js st imageFile "str ''No Style''" promptFormat]
    by (simp add: assms(3))
  have "last calls =
            masterRequest promptFormat
              (buildPromptParts (runStyleGuide ai imageFile (str ''No Style'')) scenes
                 (runSceneImages ai imageFile (str ''No Style'') scenes))"
    by (simp add: calls runMasterRequest_def)
  then show ?thesis
    using reqs req runStyleGuide_No_Style [of ai imageFile] by simp
qed

section \<open>Concrete runs for the sub-step properties\<close>

lemma ne_three: "\<exists>s\<in>set [str ''a candle'', [], str ''a sunrise'']. truthy (trim s)"
  by (simp add: trim_samples truthy_def)

lemma ne_candle: "\<exists>s\<in>set [str ''a candle'', []]. truthy (trim s)"
  by (simp add: trim_samples truthy_def)

lemma master_rejected_three:
  "runMasterOutcome (scriptedService [2]) None (str ''Noir Thriller'')
      [str ''a candle'', [], str ''a sunrise''] classic =
     Inl (Rejection (str ''unavailable''))"
  by (simp add: outcome_eval run_eval)

text \<open>C4 at a run whose third request, the master request, is rejected.\<close>

theorem C4_witness:
  "truthy (trim (str ''a candle'')) \<and>
   runMasterOutcome (scriptedService [2]) None (str ''Noir Thriller'')
      [str ''a candle'', [], str ''a sunrise''] classic =
     Inl (Rejection (str ''unavailable'')) \<and>
   fst (handleGenerateStoryboard (scriptedService [2]) sampleJs sampleState
      [str ''a candle'', [], str ''a sunrise''] None (str ''Noir Thriller'') classic) =
     Inl (Error (str ''Could not generate storyboard.'')) \<and>
   generationError (fst (snd (handleGenerateStoryboard (scriptedService [2]) sampleJs sampleState
      [str ''a candle'', [], str ''a sunrise''] None (str ''Noir Thriller'') classic))) =
     Some [str ''Failed to generate storyboard.'',
           str ''Please check your connection or API key and try again.''] \<and>
   fst (StoryboardGenerator_handleGenerateStoryboard (scriptedService [2]) sampleJs sampleState
      samplePage [str ''a candle'', [], str ''a sunrise''] None (str ''Noir Thriller'') classic) =
     \<lparr>page_masterPrompt = [], page_visualStoryboard = [], generator_visualStoryboard = [],
      generator_isGenerating = False\<rparr>"
  using C4_master_failure_is_fatal [OF ne_three master_rejected_three, of sampleJs sampleState
      samplePage]
  by (simp add: trim_samples truthy_def master_rejected_three samplePage_def)

lemma sample_data_url:
  "js_index (split_on 44 (str ''data:image/png;base64,AAAA'')) (Suc 0) = Some (str ''AAAA'')"
  by (simp add: str_def)

lemma analysis_rejected:
  "fst (analyzeImageStyle (scriptedService [0]) sampleFile []) = Inl (Rejection (str ''unavailable''))"
  by (simp add: run_eval)

lemma run_candle_analysis_rejected:
  "handleGenerateStoryboard (scriptedService [0]) sampleJs sampleState
      [str ''a candle'', []] (Some sampleFile) (str ''Noir Thriller'') classic =
   (Inr (sampleClassicAnswer, [Some (str ''img1''), None]),
    sampleState\<lparr>generationError := None\<rparr>,
    [GenerateContent (str ''gemini-2.5-flash'')
       [Text analysisInstruction, InlineData (str ''image/png'') (Some (str ''AAAA''))] None,
     sceneImageRequest (str ''Noir Thriller'') [] (str ''a candle''),
     masterRequest classic
       (buildPromptParts (initialStyleGuide (str ''Noir Thriller''))
          [str ''a candle'', []] [Some (str ''img1''), None])])"
  by (simp add: run_eval sample_data_url)

text \<open>C5 at a run whose first request, the style analysis, is rejected.\<close>

theorem C5_witness:
  "fst (analyzeImageStyle (scriptedService [0]) sampleFile []) =
     Inl (Rejection (str ''unavailable'')) \<and>
   truthy (trim (str ''a candle'')) \<and>
   handleGenerateStoryboard (scriptedService [0]) sampleJs sampleState
      [str ''a candle'', []] (Some sampleFile) (str ''Noir Thriller'') classic =
   (Inr (sampleClassicAnswer, [Some (str ''img1''), None]),
    sampleState\<lparr>generationError := None\<rparr>,
    [GenerateContent (str ''gemini-2.5-flash'')
       [Text analysisInstruction, InlineData (str ''image/png'') (Some (str ''AAAA''))] None,
     GenerateImages (str ''imagen-3.0-generate-002'')
       (str ''Noir Thriller, cinematic shot depicting a candle'') 1 (str ''image/jpeg'')
       (str ''4:3''),
     masterRequest classic
       (buildPromptParts (str ''Cinematic Style: Noir Thriller.'')
          [str ''a candle'', []] [Some (str ''img1''), None])])"
proof -
  note t = C5_style_analysis_failure_is_not_fatal
    [OF analysis_rejected ne_candle run_candle_analysis_rejected, THEN conjunct1]
  have p: "fullPrompt (str ''Noir Thriller'') [] (str ''a candle'') =
      str ''Noir Thriller, cinematic shot depicting a candle''"
    by (simp add: fullPrompt_def styleForPrompt_def truthy_def str_def trim_def
        isWhiteSpace_def isLineTerminator_def)
  have g: "initialStyleGuide (str ''Noir Thriller'') = str ''Cinematic Style: Noir Thriller.''"
    by (simp add: initialStyleGuide_def str_def)
  show ?thesis
    using t
    by (simp add: analysis_rejected run_candle_analysis_rejected trim_samples truthy_def
        sceneImageRequest_def p g)
qed


lemma images_three_scenes:
  "runSceneImages (scriptedService [0]) None (str ''Noir Thriller'')
     [str ''a candle'', [], str ''a sunrise''] = [None, None, Some (str ''img1'')]"
  using run_result [OF ne_three, of "scriptedService [0]" sampleJs sampleState None
      "str ''Noir Thriller''" classic]
  by (simp add: run_three_scenes split: sum.splits)

lemma scene_parts_three:
  "scenePartsSpec [str ''a candle'', [], str ''a sunrise''] [None, None, Some (str ''img1'')] 0 =
     [Text (str ''Scene 1: a candle'')]"
  "scenePartsSpec [str ''a candle'', [], str ''a sunrise''] [None, None, Some (str ''img1'')] (Suc 0) = []"
  "scenePartsSpec [str ''a candle'', [], str ''a sunrise''] [None, None, Some (str ''img1'')] (Suc (Suc 0)) =
     [Text (str ''Scene 3: a sunrise''), InlineData (str ''image/jpeg'') (Some (str ''img1''))]"
  by (simp_all add: scenePartsSpec_def numberToString.simps [of "Suc 0"]
      numberToString.simps [of "Suc (Suc (Suc 0))"] str_def trim_def isWhiteSpace_def
      isLineTerminator_def)

text \<open>C7 at three scenes, the second empty, where only the third has an image.\<close>

theorem C7_witness:
  "truthy (trim (str ''a candle'')) \<and>
   last (snd (snd (handleGenerateStoryboard (scriptedService [0]) sampleJs sampleState
      [str ''a candle'', [], str ''a sunrise''] None (str ''Noir Thriller'') classic))) =
     GenerateContent (str ''gemini-2.5-flash'')
       [Text framingInstruction,
        Text (str ''--- STYLE GUIDANCE ---'' @ [10] @ str ''Cinematic Style: Noir Thriller.''),
        Text (str ''Scene 1: a candle''),
        Text (str ''Scene 3: a sunrise''),
        InlineData (str ''image/jpeg'') (Some (str ''img1''))]
       (Some classicSystemInstruction)"
proof -
  note t = C7_master_request_parts [OF ne_three run_three_scenes, THEN conjunct1]
  have g: "runStyleGuide (scriptedService [0]) None (str ''Noir Thriller'') =
      str ''Cinematic Style: Noir Thriller.''"
    by (simp add: runStyleGuide_def resolveStyle_def initialStyleGuide_def str_def)
  have u: "[0..<length [str ''a candle'', [], str ''a sunrise'']] = [0, Suc 0, Suc (Suc 0)]"
    by (simp add: upt_rec)
  show ?thesis
    using t
    by (simp only: run_three_scenes snd_conv images_three_scenes g u list.map concat.simps
        scene_parts_three append.simps trim_samples truthy_def)
      (simp add: trim_samples)
qed

lemma run_candle_no_style:
  "handleGenerateStoryboard (scriptedService []) sampleJs sampleState
      [str ''a candle'', []] None (str ''No Style'') classic =
   (Inr (sampleClassicAnswer, [Some (str ''img0''), None]),
    sampleState\<lparr>generationError := None\<rparr>,
    [sceneImageRequest (str ''No Style'') [] (str ''a candle''),
     masterRequest classic
       (buildPromptParts noStyleSentence [str ''a candle'', []] [Some (str ''img0''), None])])"
  by (simp add: run_eval initialStyleGuide_def)

lemma no_keywords_without_file: "runKeywords ai None sel = []"
  by (simp add: runKeywords_def resolveStyle_def)

text \<open>C9 at a run without reference image.\<close>

theorem C9_witness:
  "truthy (trim (str ''a candle'')) \<and>
   runKeywords (scriptedService []) None (str ''No Style'') = [] \<and>
   filter isImageRequest
     (snd (snd (handleGenerateStoryboard (scriptedService []) sampleJs sampleState
        [str ''a candle'', []] None (str ''No Style'') classic))) =
     [GenerateImages (str ''imagen-3.0-generate-002'')
        (str ''cinematic shot depicting a candle'') 1 (str ''image/jpeg'') (str ''4:3'')] \<and>
   last (snd (snd (handleGenerateStoryboard (scriptedService []) sampleJs sampleState
        [str ''a candle'', []] None (str ''No Style'') classic))) =
     masterRequest classic
       (buildPromptParts noStyleSentence [str ''a candle'', []] [Some (str ''img0''), None])"
proof -
  note t = C9_no_style_never_in_image_prompt
    [OF ne_candle no_keywords_without_file run_candle_no_style, THEN conjunct1]
  show ?thesis
    using t
    by (simp add: run_candle_no_style no_keywords_without_file trim_samples truthy_def str_app)
qed

section \<open>The clean-up of a JSON answer\<close>

lemma stripPrefix_append: "stripPrefix p (p @ s) = Some s"
  by (induction p) simp_all






























section \<open>The prompt of the single-scene preview\<close>

lemma handleAnimate_calls:
  "snd (handleAnimate ai st prompt) =
     [GenerateImages (str ''imagen-3.0-generate-002'') prompt 1 (str ''image/jpeg'') (str ''16:9'')]"
proof -
  obtain r calls where g: "generateImage ai prompt (str ''16:9'') [] = (r, calls)"
    by (metis surj_pair)
  have "calls =
     [GenerateImages (str ''imagen-3.0-generate-002'') prompt 1 (str ''image/jpeg'') (str ''16:9'')]"
    using generateImage_calls [of ai prompt "str ''16:9''" "[]"] by (simp add: g)
  then show ?thesis
    by (cases r) (simp_all add: handleAnimate_def Let_def g)
qed

lemma handleGenerateScene_string:
  assumes "masterPrompt \<noteq> []" and "extractFirstPrompt js masterPrompt = JString extracted"
  shows "snd (snd (handleGenerateScene ai js st masterPrompt)) =
     [GenerateImages (str ''imagen-3.0-generate-002'')
        (if trim extracted = [] then masterPrompt else extracted) 1
        (str ''image/jpeg'') (str ''16:9'')]"
    and "fst (handleGenerateScene ai js st masterPrompt) = None"
  using assms handleAnimate_calls [of ai st "if trim extracted = [] then masterPrompt else extracted"]
  by (auto simp: handleGenerateScene_def chooseFinalPrompt_def truthy_def split: prod.splits)

lemma handleGenerateScene_not_string:
  assumes "masterPrompt \<noteq> []" and "\<forall>extracted. extractFirstPrompt js masterPrompt \<noteq> JString extracted"
  shows "handleGenerateScene ai js st masterPrompt = (Some TypeError, st, [])"
  using assms
  by (cases "extractFirstPrompt js masterPrompt")
    (simp_all add: handleGenerateScene_def chooseFinalPrompt_def truthy_def)

text \<open>
  C10. For a master prompt that is not empty, the preview never sends an empty prompt
  to image generation. When the extraction (from a JSON shape or from the markers)
  yields a string, exactly one 16:9 image request is issued: with the extracted string,
  or, when that is empty or whitespace only, with the whole unmodified master prompt.
  When the extraction yields a JSON value that is not a string, the handler throws and
  issues no request at all.
\<close>

theorem C10_preview_prompt_never_empty:
  assumes "masterPrompt \<noteq> []"
  shows "(\<forall>m p n t a.
            GenerateImages m p n t a \<in> set (snd (snd (handleGenerateScene ai js st masterPrompt))) \<longrightarrow>
            p \<noteq> []) \<and>
         (\<forall>extracted. extractFirstPrompt js masterPrompt = JString extracted \<longrightarrow>
            snd (snd (handleGenerateScene ai js st masterPrompt)) =
              [GenerateImages (str ''imagen-3.0-generate-002'')
                 (if trim extracted = [] then masterPrompt else extracted) 1
                 (str ''image/jpeg'') (str ''16:9'')]) \<and>
         ((\<forall>extracted. extractFirstPrompt js masterPrompt \<noteq> JString extracted) \<longrightarrow>
            handleGenerateScene ai js st masterPrompt = (Some TypeError, st, []))"
proof -
  have nonempty: "\<forall>m p n t a.
            GenerateImages m p n t a \<in> set (snd (snd (handleGenerateScene ai js st masterPrompt))) \<longrightarrow>
            p \<noteq> []"
  proof (cases "\<exists>extracted. extractFirstPrompt js masterPrompt = JString extracted")
    case True
    then obtain extracted where e: "extractFirstPrompt js masterPrompt = JString extracted"
      by blast
    show ?thesis
      using handleGenerateScene_string(1) [OF assms e, of ai st] assms
      by (auto split: if_splits)
  next
    case False
    then show ?thesis
      using handleGenerateScene_not_string [OF assms, of js ai st] by simp
  qed
  show ?thesis
    using nonempty handleGenerateScene_string(1) [OF assms]
      handleGenerateScene_not_string [OF assms]
    by blast
qed


lemma sample_parse_shapes:
  "JSON_parse sampleJs sampleArrayText =
     Some (JArray [JObject [(str ''generation_prompt'', JString (str ''a red door''))]])"
  "JSON_parse sampleJs sampleWrapperText =
     Some (JObject [(str ''scenes'',
       JArray [JObject [(str ''generation_prompt'', JString (str ''a blue door''))]])])"
  "JSON_parse sampleJs sampleBlankPromptText =
     Some (JArray [JObject [(str ''generation_prompt'', JString (str ''  ''))]])"
  "JSON_parse sampleJs sampleClassicAnswer = None"
  by (simp_all add: sampleJs_def)
     (simp_all add: str_def sampleArrayText_def sampleWrapperText_def sampleBlankPromptText_def
       samplePrettyText_def sampleClassicAnswer_def sampleNoteText_def sampleOverflowText_def
       sampleNullPrettyText_def quoted_def)

lemma extract_blank_sample:
  "extractFirstPrompt sampleJs sampleBlankPromptText = JString (str ''  '')"
  by (simp add: extractFirstPrompt_def sample_parse_shapes firstScenePromptOf_def
      generationPromptOfFirst_def truthy_def)

text \<open>
  C10 at a JSON master prompt whose first \<open>generation_prompt\<close> is two spaces.
\<close>

theorem C10_witness:
  "sampleBlankPromptText \<noteq> [] \<and>
   extractFirstPrompt sampleJs sampleBlankPromptText = JString (str ''  '') \<and>
   trim (str ''  '') = [] \<and>
   snd (snd (handleGenerateScene (scriptedService []) sampleJs sampleState sampleBlankPromptText)) =
     [GenerateImages (str ''imagen-3.0-generate-002'') sampleBlankPromptText 1
        (str ''image/jpeg'') (str ''16:9'')]"
proof -
  have ne: "sampleBlankPromptText \<noteq> []"
    by (simp add: sampleBlankPromptText_def)
  have blank: "trim (str ''  '') = []"
    by (simp add: trim_def isWhiteSpace_def str_def)
  note t = C10_preview_prompt_never_empty [OF ne, of "scriptedService []" sampleJs sampleState,
      THEN conjunct2, THEN conjunct1, rule_format, OF extract_blank_sample]
  show ?thesis
    using t by (simp add: ne blank extract_blank_sample)
qed


section \<open>Extracting the first prompt\<close>

lemma markerMatch_Nil: "markerMatch [] = None"
  by (simp add: markerMatch_def str_def)

lemma markerMatch_pos: "markerMatch s = Some n \<Longrightarrow> 0 < n"
  by (auto simp: markerMatch_def split: option.splits list.splits if_splits prod.splits)

lemma splitFrom_match:
  assumes "markerMatch s = Some n"
  shows "splitFrom acc s = acc # splitFrom [] (drop n s)"
proof (cases s)
  case Nil
  then show ?thesis using assms by (simp add: markerMatch_Nil)
next
  case (Cons c cs)
  have "0 < n" using assms by (rule markerMatch_pos)
  then have "drop n (c # cs) = drop (n - 1) cs"
    by (cases n) simp_all
  then show ?thesis
    using assms Cons by simp
qed

lemma splitFrom_no_match:
  "(\<forall>k<length pre. markerMatch (drop k (pre @ rest)) = None) \<Longrightarrow>
   splitFrom acc (pre @ rest) = splitFrom (acc @ pre) rest"
proof (induction pre arbitrary: acc)
  case Nil
  show ?case by simp
next
  case (Cons c pre)
  have 0: "markerMatch (c # pre @ rest) = None"
    using Cons.prems by force
  have "\<forall>k<length pre. markerMatch (drop k (pre @ rest)) = None"
    using Cons.prems by force
  then have "splitFrom (acc @ [c]) (pre @ rest) = splitFrom ((acc @ [c]) @ pre) rest"
    by (rule Cons.IH)
  then show ?case
    using 0 by simp
qed

lemma splitMarkers_two_blocks:
  assumes "\<forall>k<length pre. markerMatch (drop k (pre @ m1 @ content @ m2)) = None"
    and "markerMatch (m1 @ content @ m2) = Some (length m1)"
    and "\<forall>k<length content. markerMatch (drop k (content @ m2)) = None"
    and "markerMatch m2 = Some n"
  shows "splitMarkers (pre @ m1 @ content @ m2) = pre # content # splitFrom [] (drop n m2)"
proof -
  have "splitMarkers (pre @ m1 @ content @ m2) = splitFrom pre (m1 @ content @ m2)"
    using splitFrom_no_match [OF assms(1), of "[]"] by (simp add: splitMarkers_def)
  also have "\<dots> = pre # splitFrom [] (content @ m2)"
    using splitFrom_match [OF assms(2), of pre] by simp
  also have "splitFrom [] (content @ m2) = splitFrom content m2"
    using splitFrom_no_match [OF assms(3), of "[]"] by simp
  also have "\<dots> = content # splitFrom [] (drop n m2)"
    by (rule splitFrom_match [OF assms(4)])
  finally show ?thesis .
qed

lemma lastDashesEnd_Cons: "lastDashesEnd cs \<noteq> None \<Longrightarrow> lastDashesEnd (c # cs) \<noteq> None"
  by (auto split: option.splits)

lemma lastDashesEnd_dashes: "lastDashesEnd (45 # 45 # 45 # s) \<noteq> None"
  by (auto simp: str_def split: option.splits)

lemma dash_space_not_terminators:
  "\<not> isLineTerminator 45" "\<not> isLineTerminator 32"
  by (simp_all add: isLineTerminator_def)

lemma marker1_line:
  "isLineTerminator nl \<Longrightarrow> markerMatch (str ''--- SCENE 1 ---'' @ nl # x) = Some 15"
  by (simp add: markerMatch_def str_def isDigit_def dash_space_not_terminators)

lemma marker2_matches: "\<exists>n. markerMatch (str ''--- SCENE 2 ---'' @ rest) = Some n"
proof -
  have "takeWhile (\<lambda>c. \<not> isLineTerminator c) (32 # 45 # 45 # 45 # rest) =
      32 # 45 # 45 # 45 # takeWhile (\<lambda>c. \<not> isLineTerminator c) rest"
    by (simp add: dash_space_not_terminators)
  then have "lastDashesEnd (takeWhile (\<lambda>c. \<not> isLineTerminator c) (32 # 45 # 45 # 45 # rest)) \<noteq> None"
    using lastDashesEnd_Cons [OF lastDashesEnd_dashes] by simp
  then obtain e where
    "lastDashesEnd (takeWhile (\<lambda>c. \<not> isLineTerminator c) (32 # 45 # 45 # 45 # rest)) = Some e"
    by blast
  then show ?thesis
    by (simp add: markerMatch_def str_def isDigit_def del: takeWhile.simps lastDashesEnd.simps)
qed

lemma line_terminator_no_marker: "isLineTerminator nl \<Longrightarrow> markerMatch (nl # x) = None"
  using dash_space_not_terminators(1) by (auto simp: markerMatch_def str_def)

lemma dropWhile_id: "xs \<noteq> [] \<Longrightarrow> \<not> P (hd xs) \<Longrightarrow> dropWhile P xs = xs"
  by (cases xs) simp_all

lemma trim_idem: "trim (trim s) = trim s"
proof -
  define a where "a = dropWhile isWhiteSpace s"
  define b where "b = dropWhile isWhiteSpace (rev a)"
  have t: "trim s = rev b"
    by (simp add: trim_def a_def b_def)
  show ?thesis
  proof (cases "b = []")
    case True
    then have "trim s = []" by (simp add: t)
    then show ?thesis by simp
  next
    case False
    then have hb: "\<not> isWhiteSpace (hd b)"
      unfolding b_def by (rule hd_dropWhile)
    have a: "a \<noteq> []"
      using False by (auto simp: b_def)
    then have ha: "\<not> isWhiteSpace (hd a)"
      unfolding a_def by (rule hd_dropWhile)
    have "rev a = takeWhile isWhiteSpace (rev a) @ b"
      by (simp add: b_def)
    then have "last (rev a) = last b"
      using False by (metis last_appendR)
    then have "last b = hd a"
      using a by (simp add: last_rev)
    then have "\<not> isWhiteSpace (hd (rev b))"
      using ha False by (simp add: hd_rev)
    then have 1: "dropWhile isWhiteSpace (rev b) = rev b"
      using False by (simp add: dropWhile_id)
    have 2: "dropWhile isWhiteSpace b = b"
      using False hb by (simp add: dropWhile_id)
    show ?thesis
      by (simp add: t) (simp add: trim_def 1 2)
  qed
qed

lemma extract_not_json:
  "JSON_parse js masterPrompt = None \<Longrightarrow>
   extractFirstPrompt js masterPrompt =
     (if 1 < length (splitMarkers masterPrompt)
      then JString (trim (splitMarkers masterPrompt ! 1))
      else JString masterPrompt)"
  by (simp add: extractFirstPrompt_def Let_def)

lemma extract_null_array:
  "JSON_parse js masterPrompt = Some (JArray (JNull # others)) \<Longrightarrow>
   extractFirstPrompt js masterPrompt =
     (if 1 < length (splitMarkers masterPrompt)
      then JString (trim (splitMarkers masterPrompt ! 1))
      else JString masterPrompt)"
  by (simp add: extractFirstPrompt_def firstScenePromptOf_def generationPromptOfFirst_def Let_def)

lemma extract_two_blocks:
  assumes "JSON_parse js masterPrompt = None"
    and "masterPrompt = pre @ str ''--- SCENE 1 ---'' @ nl # body @ str ''--- SCENE 2 ---'' @ rest"
    and "isLineTerminator nl"
    and "\<forall>k<length pre. markerMatch (drop k masterPrompt) = None"
    and "\<forall>k<length body. markerMatch (drop k (body @ str ''--- SCENE 2 ---'' @ rest)) = None"
  shows "extractFirstPrompt js masterPrompt = JString (trim (nl # body))"
proof -
  let ?m1 = "str ''--- SCENE 1 ---''"
  let ?m2 = "str ''--- SCENE 2 ---'' @ rest"
  have mp: "masterPrompt = pre @ ?m1 @ (nl # body) @ ?m2"
    using assms(2) by simp
  have 1: "\<forall>k<length pre. markerMatch (drop k (pre @ ?m1 @ (nl # body) @ ?m2)) = None"
    using assms(4) unfolding mp .
  have len: "length ?m1 = 15"
    by (simp add: str_def)
  have 2: "markerMatch (?m1 @ (nl # body) @ ?m2) = Some (length ?m1)"
    using marker1_line [OF assms(3), of "body @ ?m2"] by (simp only: len append_Cons)
  have 3: "\<forall>k<length (nl # body). markerMatch (drop k ((nl # body) @ ?m2)) = None"
  proof (intro allI impI)
    fix k
    assume k: "k < length (nl # body)"
    show "markerMatch (drop k ((nl # body) @ ?m2)) = None"
    proof (cases k)
      case 0
      then show ?thesis
        using line_terminator_no_marker [OF assms(3), of "body @ ?m2"] by simp
    next
      case (Suc j)
      then have "j < length body" using k by simp
      then show ?thesis
        using assms(5) Suc by simp
    qed
  qed
  obtain n where 4: "markerMatch ?m2 = Some n"
    using marker2_matches [of rest] by blast
  have "splitMarkers masterPrompt = pre # (nl # body) # splitFrom [] (drop n ?m2)"
    unfolding mp by (rule splitMarkers_two_blocks [OF 1 2 3 4])
  then show ?thesis
    by (simp add: extract_not_json [OF assms(1)])
qed

lemma extract_array_shape:
  assumes "JSON_parse js masterPrompt = Some (JArray (JObject members # others))"
    and "map_of members (str ''generation_prompt'') = Some (JString prompt)"
    and "prompt \<noteq> []"
  shows "extractFirstPrompt js masterPrompt = JString prompt"
  using assms
  by (simp add: extractFirstPrompt_def firstScenePromptOf_def generationPromptOfFirst_def
      truthy_def)

lemma extract_wrapper_shape:
  assumes "JSON_parse js masterPrompt = Some (JObject entries)"
    and "map_of entries (str ''scenes'') = Some (JArray (JObject members # others))"
    and "map_of members (str ''generation_prompt'') = Some (JString prompt)"
    and "prompt \<noteq> []"
  shows "extractFirstPrompt js masterPrompt = JString prompt"
  using assms
  by (simp add: extractFirstPrompt_def firstScenePromptOf_def generationPromptOfFirst_def
      scenesLength_def truthy_def)

lemma extract_array_no_prompt:
  assumes "JSON_parse js masterPrompt = Some (JArray (JObject members # others))"
    and "\<not> jsTruthy (map_of members (str ''generation_prompt''))"
  shows "extractFirstPrompt js masterPrompt = JString masterPrompt"
  using assms
  by (cases "map_of members (str ''generation_prompt'')")
    (simp_all add: extractFirstPrompt_def firstScenePromptOf_def generationPromptOfFirst_def)

lemma extract_wrapper_no_prompt:
  assumes "JSON_parse js masterPrompt = Some (JObject entries)"
    and "map_of entries (str ''scenes'') = Some (JArray (JObject members # others))"
    and "\<not> jsTruthy (map_of members (str ''generation_prompt''))"
  shows "extractFirstPrompt js masterPrompt = JString masterPrompt"
  using assms
  by (cases "map_of members (str ''generation_prompt'')")
    (simp_all add: extractFirstPrompt_def firstScenePromptOf_def generationPromptOfFirst_def
      scenesLength_def)

lemma extract_no_shape:
  assumes "JSON_parse js masterPrompt = Some parsed"
    and "parsed = JArray [] \<or> parsed = JNull \<or> parsed = JBool b \<or> parsed = JNumber n \<or>
         parsed = JString s \<or> parsed = JObject entries \<and> map_of entries (str ''scenes'') = None"
  shows "extractFirstPrompt js masterPrompt = JString masterPrompt"
  using assms
  by (auto simp: extractFirstPrompt_def firstScenePromptOf_def scenesLength_def truthy_def)

lemma extract_null_scene:
  "JSON_parse js masterPrompt = Some (JObject entries) \<Longrightarrow>
   map_of entries (str ''scenes'') = Some (JArray (JNull # others)) \<Longrightarrow>
   extractFirstPrompt js masterPrompt =
     (if 1 < length (splitMarkers masterPrompt)
      then JString (trim (splitMarkers masterPrompt ! 1))
      else JString masterPrompt)"
  by (simp add: extractFirstPrompt_def firstScenePromptOf_def generationPromptOfFirst_def
      scenesLength_def Let_def)

text \<open>
  C8, as the code has it. The extraction is the value of \<open>finalPrompt\<close> after the
  \<open>try\<close> and its \<open>catch\<close> (\<open>extractFirstPrompt\<close>). For a text that is not
  JSON, in which the line \<open>--- SCENE 1 ---\<close> is the first marker and
  \<open>--- SCENE 2 ---\<close> the next one, it is exactly the content between the two
  markers, trimmed, and this is the prompt of the preview when it is not blank. The
  text is read as JSON first: a non-empty array gives the \<open>generation_prompt\<close> of
  its first object, and an object gives that of the first object of its \<open>scenes\<close>
  array. The markers are tried only in the \<open>catch\<close>, when the reading throws: for
  a text that is not JSON, and for an array or a \<open>scenes\<close> array that starts with
  \<open>null\<close>. When the text is JSON and the reading gives no truthy
  \<open>generation_prompt\<close> (the first object has none, or an empty one; the value is
  an empty array, a scalar, or an object without \<open>scenes\<close>), the result is the
  whole master prompt, and the markers are not tried.
\<close>

theorem C8_first_prompt_extraction:
  "(JSON_parse js masterPrompt = None \<and>
    masterPrompt = pre @ str ''--- SCENE 1 ---'' @ nl # body @ str ''--- SCENE 2 ---'' @ rest \<and>
    isLineTerminator nl \<and>
    (\<forall>k<length pre. markerMatch (drop k masterPrompt) = None) \<and>
    (\<forall>k<length body. markerMatch (drop k (body @ str ''--- SCENE 2 ---'' @ rest)) = None) \<longrightarrow>
      extractFirstPrompt js masterPrompt = JString (trim (nl # body)) \<and>
      (trim (nl # body) \<noteq> [] \<longrightarrow>
         chooseFinalPrompt js masterPrompt = Inr (trim (nl # body)))) \<and>
   (JSON_parse js masterPrompt = Some (JArray (JObject members # others)) \<and>
    map_of members (str ''generation_prompt'') = Some (JString prompt) \<and> prompt \<noteq> [] \<longrightarrow>
      extractFirstPrompt js masterPrompt = JString prompt) \<and>
   (JSON_parse js masterPrompt = Some (JObject entries) \<and>
    map_of entries (str ''scenes'') = Some (JArray (JObject members # others)) \<and>
    map_of members (str ''generation_prompt'') = Some (JString prompt) \<and> prompt \<noteq> [] \<longrightarrow>
      extractFirstPrompt js masterPrompt = JString prompt) \<and>
   (JSON_parse js masterPrompt = None \<or>
    JSON_parse js masterPrompt = Some (JArray (JNull # others)) \<or>
    JSON_parse js masterPrompt = Some (JObject entries) \<and>
    map_of entries (str ''scenes'') = Some (JArray (JNull # others)) \<longrightarrow>
      extractFirstPrompt js masterPrompt =
        (if 1 < length (splitMarkers masterPrompt)
         then JString (trim (splitMarkers masterPrompt ! 1))
         else JString masterPrompt)) \<and>
   (JSON_parse js masterPrompt = Some (JArray (JObject members # others)) \<and>
    \<not> jsTruthy (map_of members (str ''generation_prompt'')) \<longrightarrow>
      extractFirstPrompt js masterPrompt = JString masterPrompt) \<and>
   (JSON_parse js masterPrompt = Some (JObject entries) \<and>
    map_of entries (str ''scenes'') = Some (JArray (JObject members # others)) \<and>
    \<not> jsTruthy (map_of members (str ''generation_prompt'')) \<longrightarrow>
      extractFirstPrompt js masterPrompt = JString masterPrompt) \<and>
   (JSON_parse js masterPrompt = Some parsed \<and>
    (parsed = JArray [] \<or> parsed = JNull \<or> parsed = JBool b \<or> parsed = JNumber n \<or>
     parsed = JString s \<or>
     parsed = JObject entries \<and> map_of entries (str ''scenes'') = None) \<longrightarrow>
      extractFirstPrompt js masterPrompt = JString masterPrompt)"
proof -
  have final: "extractFirstPrompt js masterPrompt = JString (trim (nl # body)) \<Longrightarrow>
      trim (nl # body) \<noteq> [] \<Longrightarrow>
      chooseFinalPrompt js masterPrompt = Inr (trim (nl # body))"
    by (simp add: chooseFinalPrompt_def trim_idem)
  have classic_text: "JSON_parse js masterPrompt = None \<and>
    masterPrompt = pre @ str ''--- SCENE 1 ---'' @ nl # body @ str ''--- SCENE 2 ---'' @ rest \<and>
    isLineTerminator nl \<and>
    (\<forall>k<length pre. markerMatch (drop k masterPrompt) = None) \<and>
    (\<forall>k<length body. markerMatch (drop k (body @ str ''--- SCENE 2 ---'' @ rest)) = None) \<longrightarrow>
      extractFirstPrompt js masterPrompt = JString (trim (nl # body)) \<and>
      (trim (nl # body) \<noteq> [] \<longrightarrow>
         chooseFinalPrompt js masterPrompt = Inr (trim (nl # body)))"
    using extract_two_blocks [of js masterPrompt pre nl body rest] final by blast
  have array_shape: "JSON_parse js masterPrompt = Some (JArray (JObject members # others)) \<and>
    map_of members (str ''generation_prompt'') = Some (JString prompt) \<and> prompt \<noteq> [] \<longrightarrow>
      extractFirstPrompt js masterPrompt = JString prompt"
    using extract_array_shape [of js masterPrompt members others prompt] by blast
  have wrapper_shape: "JSON_parse js masterPrompt = Some (JObject entries) \<and>
    map_of entries (str ''scenes'') = Some (JArray (JObject members # others)) \<and>
    map_of members (str ''generation_prompt'') = Some (JString prompt) \<and> prompt \<noteq> [] \<longrightarrow>
      extractFirstPrompt js masterPrompt = JString prompt"
    using extract_wrapper_shape [of js masterPrompt entries members others prompt] by blast
  have markers: "JSON_parse js masterPrompt = None \<or>
    JSON_parse js masterPrompt = Some (JArray (JNull # others)) \<or>
    JSON_parse js masterPrompt = Some (JObject entries) \<and>
    map_of entries (str ''scenes'') = Some (JArray (JNull # others)) \<longrightarrow>
      extractFirstPrompt js masterPrompt =
        (if 1 < length (splitMarkers masterPrompt)
         then JString (trim (splitMarkers masterPrompt ! 1))
         else JString masterPrompt)"
    using extract_not_json [of js masterPrompt] extract_null_array [of js masterPrompt others]
      extract_null_scene [of js masterPrompt entries others]
    by blast
  have array_without: "JSON_parse js masterPrompt = Some (JArray (JObject members # others)) \<and>
    \<not> jsTruthy (map_of members (str ''generation_prompt'')) \<longrightarrow>
      extractFirstPrompt js masterPrompt = JString masterPrompt"
    using extract_array_no_prompt [of js masterPrompt members others] by blast
  have wrapper_without: "JSON_parse js masterPrompt = Some (JObject entries) \<and>
    map_of entries (str ''scenes'') = Some (JArray (JObject members # others)) \<and>
    \<not> jsTruthy (map_of members (str ''generation_prompt'')) \<longrightarrow>
      extractFirstPrompt js masterPrompt = JString masterPrompt"
    using extract_wrapper_no_prompt [of js masterPrompt entries members others] by blast
  have no_shape: "JSON_parse js masterPrompt = Some parsed \<and>
    (parsed = JArray [] \<or> parsed = JNull \<or> parsed = JBool b \<or> parsed = JNumber n \<or>
     parsed = JString s \<or>
     parsed = JObject entries \<and> map_of entries (str ''scenes'') = None) \<longrightarrow>
      extractFirstPrompt js masterPrompt = JString masterPrompt"
    using extract_no_shape [of js masterPrompt parsed b n s entries] by blast
  show ?thesis
    using classic_text array_shape wrapper_shape markers array_without wrapper_without no_shape
    by (intro conjI)
qed

lemma no_dash_no_marker: "c \<noteq> 45 \<Longrightarrow> markerMatch (c # s) = None"
  by (simp add: markerMatch_def str_def)

lemma dashless_block:
  assumes "45 \<notin> set body"
  shows "\<forall>k<length body. markerMatch (drop k (body @ x)) = None"
proof (intro allI impI)
  fix k
  assume k: "k < length body"
  then have "drop k (body @ x) = (body ! k) # (drop (Suc k) body @ x)"
    by (simp add: Cons_nth_drop_Suc)
  moreover have "body ! k \<noteq> 45"
    using assms k by (metis nth_mem)
  ultimately show "markerMatch (drop k (body @ x)) = None"
    by (simp add: no_dash_no_marker)
qed

lemma sample_parse_note:
  "JSON_parse sampleJs sampleNoteText =
     Some (JArray [JObject [(str ''note'', JString (str ''--- SCENE 1 --- a candle''))]])"
  by (simp add: sampleJs_def)
     (simp add: str_def sampleArrayText_def sampleWrapperText_def sampleBlankPromptText_def
       samplePrettyText_def sampleNoteText_def quoted_def)

lemma split_note:
  "splitMarkers sampleNoteText =
     [str ''[{'' @ quoted (str ''note'') @ str '':'' @ [34], str '' a candle'' @ [34] @ str ''}]'']"
  by (simp add: splitMarkers_def sampleNoteText_def quoted_def str_def markerMatch_def isDigit_def
      isLineTerminator_def)

lemma note_key: "map_of [(str ''note'', JString (str ''--- SCENE 1 --- a candle''))]
     (str ''generation_prompt'') = None"
  by (simp add: str_def)

text \<open>
  C8 as stated fails: the markers are no third fallback behind the two JSON shapes. A
  JSON array whose first object has no \<open>generation_prompt\<close> yields the whole master
  prompt, although the text holds a marker and splitting at it gives a second piece.
\<close>

theorem C8_counterexample:
  "JSON_parse sampleJs sampleNoteText =
     Some (JArray [JObject [(str ''note'', JString (str ''--- SCENE 1 --- a candle''))]]) \<and>
   splitMarkers sampleNoteText =
     [str ''[{'' @ quoted (str ''note'') @ str '':'' @ [34], str '' a candle'' @ [34] @ str ''}]''] \<and>
   trim (str '' a candle'' @ [34] @ str ''}]'') = str ''a candle'' @ [34] @ str ''}]'' \<and>
   extractFirstPrompt sampleJs sampleNoteText = JString sampleNoteText \<and>
   sampleNoteText \<noteq> str ''a candle'' @ [34] @ str ''}]''"
proof -
  have "\<not> jsTruthy (map_of [(str ''note'', JString (str ''--- SCENE 1 --- a candle''))]
      (str ''generation_prompt''))"
    unfolding note_key by simp
  then have e: "extractFirstPrompt sampleJs sampleNoteText = JString sampleNoteText"
    by (rule extract_array_no_prompt [OF sample_parse_note])
  have t: "trim (str '' a candle'' @ [34] @ str ''}]'') = str ''a candle'' @ [34] @ str ''}]''"
    by (simp add: trim_def isWhiteSpace_def isLineTerminator_def str_def)
  have d: "sampleNoteText \<noteq> str ''a candle'' @ [34] @ str ''}]''"
    by (simp add: sampleNoteText_def quoted_def str_def)
  show ?thesis
    using sample_parse_note split_note e t d by blast
qed

text \<open>
  C8 at a classic text of two scenes, at a JSON array, at a JSON wrapper object, and at
  a JSON array without \<open>generation_prompt\<close>.
\<close>

theorem C8_witness:
  "JSON_parse sampleJs sampleClassicAnswer = None \<and>
   sampleClassicAnswer =
     [] @ str ''--- SCENE 1 ---'' @ 10 # (str ''A candle.'' @ [10]) @
     str ''--- SCENE 2 ---'' @ ([10] @ str ''A sunrise.'') \<and>
   isLineTerminator 10 \<and>
   extractFirstPrompt sampleJs sampleClassicAnswer = JString (str ''A candle.'') \<and>
   extractFirstPrompt sampleJs sampleArrayText = JString (str ''a red door'') \<and>
   extractFirstPrompt sampleJs sampleWrapperText = JString (str ''a blue door'') \<and>
   JSON_parse sampleJs sampleNoteText =
     Some (JArray [JObject [(str ''note'', JString (str ''--- SCENE 1 --- a candle''))]]) \<and>
   extractFirstPrompt sampleJs sampleNoteText = JString sampleNoteText"
proof -
  have shape: "sampleClassicAnswer =
     [] @ str ''--- SCENE 1 ---'' @ 10 # (str ''A candle.'' @ [10]) @
     str ''--- SCENE 2 ---'' @ ([10] @ str ''A sunrise.'')"
    by (simp add: sampleClassicAnswer_def)
  have nl: "isLineTerminator 10"
    by (simp add: isLineTerminator_def)
  have pre: "\<forall>k<length ([] :: jsstr). markerMatch (drop k sampleClassicAnswer) = None"
    by simp
  have "45 \<notin> set (str ''A candle.'' @ [10])"
    by (simp add: str_def)
  then have body: "\<forall>k<length (str ''A candle.'' @ [10]).
      markerMatch (drop k ((str ''A candle.'' @ [10]) @ str ''--- SCENE 2 ---'' @
        ([10] @ str ''A sunrise.''))) = None"
    by (rule dashless_block)
  have hyps: "JSON_parse sampleJs sampleClassicAnswer = None \<and>
    sampleClassicAnswer =
      [] @ str ''--- SCENE 1 ---'' @ 10 # (str ''A candle.'' @ [10]) @
      str ''--- SCENE 2 ---'' @ ([10] @ str ''A sunrise.'') \<and>
    isLineTerminator 10 \<and>
    (\<forall>k<length ([] :: jsstr). markerMatch (drop k sampleClassicAnswer) = None) \<and>
    (\<forall>k<length (str ''A candle.'' @ [10]).
      markerMatch (drop k ((str ''A candle.'' @ [10]) @ str ''--- SCENE 2 ---'' @
        ([10] @ str ''A sunrise.''))) = None)"
    using sample_parse_shapes(4) shape nl pre body by blast
  note t = C8_first_prompt_extraction
    [of sampleJs sampleClassicAnswer "[]" 10 "str ''A candle.'' @ [10]" "[10] @ str ''A sunrise.''",
     THEN conjunct1, THEN mp, OF hyps, THEN conjunct1]
  have tr: "trim (10 # (str ''A candle.'' @ [10])) = str ''A candle.''"
    by (simp add: trim_def isWhiteSpace_def isLineTerminator_def str_def)
  have a: "extractFirstPrompt sampleJs sampleArrayText = JString (str ''a red door'')"
    by (simp add: extractFirstPrompt_def sample_parse_shapes firstScenePromptOf_def
      generationPromptOfFirst_def truthy_def)
  have w: "extractFirstPrompt sampleJs sampleWrapperText = JString (str ''a blue door'')"
    by (simp add: extractFirstPrompt_def sample_parse_shapes firstScenePromptOf_def
      generationPromptOfFirst_def scenesLength_def truthy_def)
  have "\<not> jsTruthy (map_of [(str ''note'', JString (str ''--- SCENE 1 --- a candle''))]
      (str ''generation_prompt''))"
    unfolding note_key by simp
  then have without: "JSON_parse sampleJs sampleNoteText =
      Some (JArray (JObject [(str ''note'', JString (str ''--- SCENE 1 --- a candle''))] # [])) \<and>
    \<not> jsTruthy (map_of [(str ''note'', JString (str ''--- SCENE 1 --- a candle''))]
      (str ''generation_prompt''))"
    using sample_parse_note by blast
  note u = C8_first_prompt_extraction
    [of sampleJs sampleNoteText _ _ _ _
       "[(str ''note'', JString (str ''--- SCENE 1 --- a candle''))]" "[]",
     THEN conjunct2, THEN conjunct2, THEN conjunct2, THEN conjunct2, THEN conjunct1, THEN mp,
     OF without]
  have c: "extractFirstPrompt sampleJs sampleClassicAnswer = JString (str ''A candle.'')"
    using t by (simp only: tr)
  show ?thesis
    using sample_parse_shapes(4) shape nl c a w sample_parse_note u by blast
qed

end
